theory Spec2Isabelle
  imports Complex_Main "HOL-Library.Multiset"
begin

section \<open>Host values: JavaScript numbers, strings and dates\<close>

text \<open>
  The aggregation code of the dashboard divides counts by counts.  In JavaScript
  such a division never raises: \<open>0 / 0\<close> is \<open>NaN\<close> and \<open>n / 0\<close> with \<open>n > 0\<close> is
  \<open>Infinity\<close>.  A number is therefore either finite, \<open>NaN\<close> or \<open>+Infinity\<close>
  (negative values never arise from counts).  A finite number is an IEEE double,
  kept as the rational it denotes.
\<close>

datatype jsnum = Num rat | NaN | PosInf

text \<open>A counter kept in a dictionary object: a number or a string.\<close>

datatype jsval = Count nat | Text string

text \<open>
  The result of an arithmetic operation is the double nearest to the exact
  result, a tie going to the even significand.  \<open>log2floor n\<close> is the position
  of the leading bit of \<open>n\<close>, \<open>exponentOf a b\<close> the binary exponent of \<open>a / b\<close>
  and \<open>toDouble a b\<close> the double nearest to \<open>a / b\<close>, with 53 significant
  bits, for \<open>a \<ge> 0\<close> and \<open>b > 0\<close>.  Magnitudes are taken to lie in the normal
  range of doubles, as those of counts, percentages and random draws do.
\<close>

function log2floor :: "int \<Rightarrow> int" where
  "log2floor n = (if n \<le> 1 then 0 else 1 + log2floor (n div 2))"
  by pat_completeness auto
termination
  by (relation "measure nat") auto

declare log2floor.simps [simp del]

definition exponentOf :: "int \<Rightarrow> int \<Rightarrow> int" where
  "exponentOf a b =
     (let d = log2floor a - log2floor b
      in if 0 \<le> d then (if b * 2 ^ nat d \<le> a then d else d - 1)
         else (if b \<le> a * 2 ^ nat (- d) then d else d - 1))"

definition nearestEven :: "int \<Rightarrow> int \<Rightarrow> int" where
  "nearestEven num den =
     (let f = num div den; r = num mod den
      in if 2 * r < den then f
         else if den < 2 * r then f + 1
         else if even f then f else f + 1)"

definition toDouble :: "int \<Rightarrow> int \<Rightarrow> rat" where
  "toDouble a b =
     (if a = 0 then 0
      else let e = exponentOf a b
           in if e \<le> 52 then rat_of_int (nearestEven (a * 2 ^ nat (52 - e)) b) / 2 ^ nat (52 - e)
              else rat_of_int (nearestEven a (b * 2 ^ nat (e - 52))) * 2 ^ nat (e - 52))"

text \<open>The double nearest to a rational.\<close>

definition fl :: "rat \<Rightarrow> rat" where
  "fl q = (case quotient_of q of (p, d) \<Rightarrow> if p < 0 then - toDouble (- p) d else toDouble p d)"

text \<open>\<open>a / b\<close> for two counts.\<close>

definition jsdiv :: "nat \<Rightarrow> nat \<Rightarrow> jsnum" where
  "jsdiv a b =
     (if b = 0 then (if a = 0 then NaN else PosInf)
      else Num (toDouble (int a) (int b)))"

text \<open>\<open>x * 100\<close>.\<close>

fun times100 :: "jsnum \<Rightarrow> jsnum" where
  "times100 (Num q) = Num (fl (q * 100))"
| "times100 NaN = NaN"
| "times100 PosInf = PosInf"

text \<open>\<open>Math.min(100, x)\<close>: \<open>NaN\<close> is contagious, \<open>Infinity\<close> is cut to 100.\<close>

fun min100 :: "jsnum \<Rightarrow> jsnum" where
  "min100 (Num q) = Num (min 100 q)"
| "min100 NaN = NaN"
| "min100 PosInf = Num 100"

text \<open>\<open>Math.round(x)\<close>: the integer nearest to \<open>x\<close>, halves rounded up.\<close>

fun round_js :: "jsnum \<Rightarrow> jsnum" where
  "round_js (Num q) = Num (rat_of_int \<lfloor>q + 1 / 2\<rfloor>)"
| "round_js NaN = NaN"
| "round_js PosInf = PosInf"

text \<open>Membership in the closed interval from 0 to 100; \<open>NaN\<close> is in no interval.\<close>

fun in_0_100 :: "jsnum \<Rightarrow> bool" where
  "in_0_100 (Num q) = (0 \<le> q \<and> q \<le> 100)"
| "in_0_100 NaN = False"
| "in_0_100 PosInf = False"

text \<open>\<open>n.toString()\<close> for a non-negative integer, and \<open>s.padStart(2, '0')\<close>.\<close>

definition digit :: "nat \<Rightarrow> char" where
  "digit d = ''0123456789'' ! (d mod 10)"

fun toString :: "nat \<Rightarrow> string" where
  "toString n = (if n < 10 then [digit n] else toString (n div 10) @ [digit n])"

declare toString.simps [simp del]

definition padStart2 :: "string \<Rightarrow> string" where
  "padStart2 s = replicate (2 - length s) (CHR ''0'') @ s"

text \<open>\<open>s.startsWith(p)\<close> and \<open>s.split(c)[0]\<close>.\<close>

definition startsWith :: "string \<Rightarrow> string \<Rightarrow> bool" where
  "startsWith s p = (take (length p) s = p)"

definition firstSegment :: "char \<Rightarrow> string \<Rightarrow> string" where
  "firstSegment c s = takeWhile (\<lambda>x. x \<noteq> c) s"

text \<open>
  The \<open>Date\<close> object belongs to the host.  Its operations are parameters of the
  model: \<open>parse s\<close> is \<open>new Date(s).getTime()\<close> (\<open>None\<close> for an invalid date,
  whose time value is \<open>NaN\<close>), \<open>toISOString t\<close> renders the instant \<open>t\<close>
  (milliseconds since the epoch), \<open>localTZA t\<close> is the offset of local time at
  \<open>t\<close>, \<open>minusDays t i\<close> is the instant obtained by \<open>d.setDate(d.getDate() - i)\<close>
  and \<open>toLocaleDateString t\<close> is the chart label of \<open>t\<close>.
\<close>

record host =
  parse :: "string \<Rightarrow> int option"
  toISOString :: "int \<Rightarrow> string"
  localTZA :: "int \<Rightarrow> int"
  minusDays :: "int \<Rightarrow> nat \<Rightarrow> int"
  toLocaleDateString :: "int \<Rightarrow> string"

text \<open>\<open>new Date(s).getHours()\<close>: the hour of the local time, \<open>NaN\<close> for an invalid date.\<close>

definition getHours :: "host \<Rightarrow> string \<Rightarrow> nat option" where
  "getHours h s =
     (case parse h s of
        None \<Rightarrow> None
      | Some t \<Rightarrow> Some (nat (((t + localTZA h t) div 3600000) mod 24)))"

text \<open>
  \<open>xs.sort(cmp)\<close>.  The comparator returns a number; \<open>None\<close> stands for \<open>NaN\<close>,
  which the sort reads as 0.  The sort is stable; it is modelled by insertion
  from the right, which agrees with every stable sort when the comparator is
  a consistent ordering.
\<close>

fun insertBy :: "('a \<Rightarrow> 'a \<Rightarrow> int option) \<Rightarrow> 'a \<Rightarrow> 'a list \<Rightarrow> 'a list" where
  "insertBy cmp x [] = [x]"
| "insertBy cmp x (y # ys) =
     (if (case cmp x y of None \<Rightarrow> 0 | Some v \<Rightarrow> v) \<le> 0 then x # y # ys
      else y # insertBy cmp x ys)"

definition sortBy :: "('a \<Rightarrow> 'a \<Rightarrow> int option) \<Rightarrow> 'a list \<Rightarrow> 'a list" where
  "sortBy cmp xs = foldr (insertBy cmp) xs []"

section \<open>Records of the store\<close>

record signal =
  s_id :: string
  s_type :: string
  s_location :: string
  s_severity :: string
  s_created_at :: string

record event =
  e_id :: string
  e_title :: string
  e_location :: string
  e_severity :: string
  e_signal_count :: nat
  e_status :: string
  e_created_at :: string

record alert =
  a_id :: string
  a_title :: string
  a_location :: string
  a_severity :: string
  a_issued_at :: string

text \<open>
  A fetch either rejects (the awaited \<open>Promise.all\<close> throws) or resolves to a
  result whose \<open>data\<close> may be null; the callers read \<open>result.data || []\<close>.
\<close>

datatype fetchError = FetchError

type_synonym 'a fetched = "fetchError + 'a list option"

definition dataOrEmpty :: "'a list option \<Rightarrow> 'a list" where
  "dataOrEmpty d = (case d of None \<Rightarrow> [] | Some xs \<Rightarrow> xs)"

section \<open>AdvancedAnalytics\<close>

record severityEntry =
  sd_severity :: string
  sd_count :: nat
  sd_color :: string

record hotspot =
  h_location :: string
  h_count :: jsval
  h_risk :: string

record typeShare =
  t_type :: string
  t_count :: jsval
  t_percentage :: jsnum

record timePattern =
  tp_hour :: string
  tp_signals :: nat
  tp_normalized :: jsnum

record riskFactor =
  factor :: string
  rf_value :: jsnum

record trend =
  tr_date :: string
  tr_signals :: nat
  tr_high :: nat
  tr_medium :: nat
  tr_low :: nat
  tr_anomaly :: rat

text \<open>\<open>signals.filter(s => s.severity === sev).length\<close>\<close>

definition severityCount :: "string \<Rightarrow> signal list \<Rightarrow> nat" where
  "severityCount sev signals = length (filter (\<lambda>s. s_severity s = sev) signals)"

definition severityDistribution :: "signal list \<Rightarrow> severityEntry list" where
  "severityDistribution signals =
     [\<lparr>sd_severity = ''High'', sd_count = severityCount ''high'' signals, sd_color = ''#ef4444''\<rparr>,
      \<lparr>sd_severity = ''Medium'', sd_count = severityCount ''medium'' signals, sd_color = ''#f59e0b''\<rparr>,
      \<lparr>sd_severity = ''Low'', sd_count = severityCount ''low'' signals, sd_color = ''#10b981''\<rparr>]"

text \<open>
  The counters are kept in an object literal \<open>{}\<close> used as a dictionary.  Its own
  properties are an association list in the order in which they were created.
  A value is a number or a string: a key that the object does not own is read
  from \<open>Object.prototype\<close>, and for the names below the value read is a function
  (for \<open>__proto__\<close> the prototype object itself), which \<open>|| 0\<close> keeps and to which
  \<open>+ 1\<close> appends the character \<open>1\<close> after turning it into its text.  The texts
  are written as V8 prints them; every engine prints a text that is not a
  numeral.
\<close>

definition objectPrototype :: "(string \<times> string) list" where
  "objectPrototype =
     [(''constructor'', ''function Object() { [native code] }''),
      (''__defineGetter__'', ''function __defineGetter__() { [native code] }''),
      (''__defineSetter__'', ''function __defineSetter__() { [native code] }''),
      (''hasOwnProperty'', ''function hasOwnProperty() { [native code] }''),
      (''__lookupGetter__'', ''function __lookupGetter__() { [native code] }''),
      (''__lookupSetter__'', ''function __lookupSetter__() { [native code] }''),
      (''isPrototypeOf'', ''function isPrototypeOf() { [native code] }''),
      (''propertyIsEnumerable'', ''function propertyIsEnumerable() { [native code] }''),
      (''toString'', ''function toString() { [native code] }''),
      (''valueOf'', ''function valueOf() { [native code] }''),
      (''__proto__'', ''[object Object]''),
      (''toLocaleString'', ''function toLocaleString() { [native code] }'')]"

text \<open>The keys that are read as a plain missing key: not inherited.\<close>

definition plainKey :: "string \<Rightarrow> bool" where
  "plainKey k = (map_of objectPrototype k = None)"

text \<open>\<open>(counts[k] || 0) + 1\<close>: the empty string and 0 are the falsy values.\<close>

fun plusOne :: "jsval \<Rightarrow> jsval" where
  "plusOne (Count n) = Count (n + 1)"
| "plusOne (Text s) = (if s = [] then Count 1 else Text (s @ ''1''))"

definition readPlusOne :: "(string \<times> jsval) list \<Rightarrow> string \<Rightarrow> jsval" where
  "readPlusOne counts k =
     (case map_of counts k of
        Some v \<Rightarrow> plusOne v
      | None \<Rightarrow> (case map_of objectPrototype k of
                   Some text \<Rightarrow> Text (text @ ''1'')
                 | None \<Rightarrow> Count 1))"

text \<open>
  \<open>counts[k] = v\<close>: the own property is overwritten in place or created at the
  end.  The key \<open>__proto__\<close> is an inherited setter, which ignores a value that
  is neither an object nor null: nothing is stored.
\<close>

fun assign :: "string \<Rightarrow> jsval \<Rightarrow> (string \<times> jsval) list \<Rightarrow> (string \<times> jsval) list" where
  "assign k v [] = [(k, v)]"
| "assign k v ((k', c) # rest) =
     (if k = k' then (k', v) # rest else (k', c) # assign k v rest)"

definition increment :: "string \<Rightarrow> (string \<times> jsval) list \<Rightarrow> (string \<times> jsval) list" where
  "increment k counts =
     (if k = ''__proto__'' then counts else assign k (readPlusOne counts k) counts)"

definition countBy :: "(signal \<Rightarrow> string) \<Rightarrow> signal list \<Rightarrow> (string \<times> jsval) list" where
  "countBy key signals = foldl (\<lambda>counts s. increment (key s) counts) [] signals"

definition locationCounts :: "signal list \<Rightarrow> (string \<times> jsval) list" where
  "locationCounts signals = countBy (\<lambda>s. firstSegment (CHR '','') (s_location s)) signals"

definition typeCounts :: "signal list \<Rightarrow> (string \<times> jsval) list" where
  "typeCounts signals = countBy s_type signals"

text \<open>
  \<open>Object.entries(counts)\<close>: the keys that are array indices (the decimal
  numerals of the integers from 0 to \<open>2^32 - 2\<close>, without leading zero) come
  first, in ascending order, then the other keys in the order of creation.
\<close>

definition arrayIndex :: "string \<Rightarrow> int option" where
  "arrayIndex k =
     (if k \<noteq> [] \<and> list_all (\<lambda>c. c \<in> set ''0123456789'') k \<and> (k = ''0'' \<or> hd k \<noteq> CHR ''0'')
      then (let n = foldl (\<lambda>n c. 10 * n + (of_char c - 48)) 0 k
            in if n \<le> 4294967294 then Some n else None)
      else None)"

definition indexed :: "(string \<times> 'v) list \<Rightarrow> (int \<times> string \<times> 'v) list" where
  "indexed obj =
     concat (map (\<lambda>(k, v). case arrayIndex k of None \<Rightarrow> [] | Some i \<Rightarrow> [(i, k, v)]) obj)"

definition entries :: "(string \<times> 'v) list \<Rightarrow> (string \<times> 'v) list" where
  "entries obj =
     map snd (sort_key fst (indexed obj)) @ filter (\<lambda>(k, v). arrayIndex k = None) obj"

text \<open>
  \<open>count > n\<close> and \<open>b.count - a.count\<close> turn a string count into a number; the
  texts above are no numerals, so the number is \<open>NaN\<close>: the comparison is false
  and the difference is \<open>NaN\<close>.
\<close>

fun greater :: "jsval \<Rightarrow> nat \<Rightarrow> bool" where
  "greater (Count c) n = (c > n)"
| "greater (Text s) n = False"

definition riskTier :: "jsval \<Rightarrow> string" where
  "riskTier c = (if greater c 10 then ''high'' else if greater c 5 then ''medium'' else ''low'')"

fun minus :: "jsval \<Rightarrow> jsval \<Rightarrow> int option" where
  "minus (Count b) (Count a) = Some (int b - int a)"
| "minus b a = None"

definition byCountDesc :: "('a \<Rightarrow> jsval) \<Rightarrow> 'a \<Rightarrow> 'a \<Rightarrow> int option" where
  "byCountDesc cnt a b = minus (cnt b) (cnt a)"

definition locationHotspots :: "signal list \<Rightarrow> hotspot list" where
  "locationHotspots signals =
     take 10 (sortBy (byCountDesc h_count)
       (map (\<lambda>(location, c). \<lparr>h_location = location, h_count = c, h_risk = riskTier c\<rparr>)
            (entries (locationCounts signals))))"

text \<open>\<open>Math.round((count / signals.length) * 100)\<close>; a string count divided is \<open>NaN\<close>.\<close>

fun percentage :: "jsval \<Rightarrow> nat \<Rightarrow> jsnum" where
  "percentage (Count c) n = round_js (times100 (jsdiv c n))"
| "percentage (Text s) n = NaN"

definition typeBreakdown :: "signal list \<Rightarrow> typeShare list" where
  "typeBreakdown signals =
     sortBy (byCountDesc t_count)
       (map (\<lambda>(type, c). \<lparr>t_type = type, t_count = c, t_percentage = percentage c (length signals)\<rparr>)
            (entries (typeCounts signals)))"

text \<open>
  \<open>hourCounts[hour]++\<close> on the 24 counters.  When the date is invalid the hour is
  \<open>NaN\<close> and the statement writes a property named \<open>NaN\<close>, leaving the 24
  counters as they are.
\<close>

definition hourCounts :: "host \<Rightarrow> signal list \<Rightarrow> nat list" where
  "hourCounts h signals =
     foldl (\<lambda>counts s. case getHours h (s_created_at s) of
                          None \<Rightarrow> counts
                        | Some hour \<Rightarrow> counts[hour := counts ! hour + 1])
           (replicate 24 0) signals"

text \<open>\<open>Math.max(...counts)\<close> for a non-empty array of counts.\<close>

definition maxCount :: "nat list \<Rightarrow> nat" where
  "maxCount counts = foldr max counts 0"

definition generateTimePatterns :: "host \<Rightarrow> signal list \<Rightarrow> timePattern list" where
  "generateTimePatterns h signals =
     (let counts = hourCounts h signals in
      map (\<lambda>(c, hour).
             \<lparr>tp_hour = padStart2 (toString hour) @ '':00'',
              tp_signals = c,
              tp_normalized = times100 (jsdiv c (maxCount counts))\<rparr>)
          (zip counts [0..<length counts]))"

definition riskAssessment :: "signal list \<Rightarrow> event list \<Rightarrow> riskFactor list" where
  "riskAssessment signals events =
     [\<lparr>factor = ''Signal Volume'', rf_value = min100 (times100 (jsdiv (length signals) 100))\<rparr>,
      \<lparr>factor = ''Severity Level'',
        rf_value = times100 (jsdiv (sd_count (severityDistribution signals ! 0)) (length signals))\<rparr>,
      \<lparr>factor = ''Geographic Spread'',
        rf_value = min100 (Num (rat_of_nat (length (locationCounts signals) * 10)))\<rparr>,
      \<lparr>factor = ''Event Frequency'', rf_value = min100 (Num (rat_of_nat (length events * 5)))\<rparr>,
      \<lparr>factor = ''Response Time'', rf_value = Num 85\<rparr>,
      \<lparr>factor = ''Community Engagement'', rf_value = Num 70\<rparr>]"

text \<open>
  \<open>generateSignalTrends\<close>: one bucket for each day offset from \<open>days - 1\<close> down
  to 0.  Each iteration reads the clock (\<open>now i\<close> is the reading of the
  iteration for offset \<open>i\<close>) and draws a random number (\<open>rnd i\<close>).
\<close>

definition windowDays :: "string \<Rightarrow> nat" where
  "windowDays timeRange = (if timeRange = ''7d'' then 7 else if timeRange = ''30d'' then 30 else 1)"

definition dateStr :: "host \<Rightarrow> (nat \<Rightarrow> int) \<Rightarrow> nat \<Rightarrow> string" where
  "dateStr h now i = firstSegment (CHR ''T'') (toISOString h (minusDays h (now i) i))"

definition daySignals :: "host \<Rightarrow> (nat \<Rightarrow> int) \<Rightarrow> signal list \<Rightarrow> nat \<Rightarrow> signal list" where
  "daySignals h now signals i = filter (\<lambda>s. startsWith (s_created_at s) (dateStr h now i)) signals"

definition trendBucket :: "host \<Rightarrow> (nat \<Rightarrow> int) \<Rightarrow> (nat \<Rightarrow> rat) \<Rightarrow> signal list \<Rightarrow> nat \<Rightarrow> trend" where
  "trendBucket h now rnd signals i =
     (let ds = daySignals h now signals i in
      \<lparr>tr_date = toLocaleDateString h (minusDays h (now i) i),
       tr_signals = length ds,
       tr_high = severityCount ''high'' ds,
       tr_medium = severityCount ''medium'' ds,
       tr_low = severityCount ''low'' ds,
       tr_anomaly = fl (fl (rnd i * fl (3 / 10)) + fl (1 / 10))\<rparr>)"

definition generateSignalTrends ::
  "host \<Rightarrow> (nat \<Rightarrow> int) \<Rightarrow> (nat \<Rightarrow> rat) \<Rightarrow> signal list \<Rightarrow> string \<Rightarrow> trend list" where
  "generateSignalTrends h now rnd signals timeRange =
     map (trendBucket h now rnd signals) (rev [0..<windowDays timeRange])"

text \<open>
  The component's state and \<open>loadAnalyticsData\<close>, from the state at the call to
  the state when the function has returned (\<open>isLoading\<close> is true in between).
  A rejected fetch leaves the \<open>try\<close> block before any derived view is computed;
  the \<open>catch\<close> block only logs.
\<close>

record AnalyticsData =
  d_signalTrends :: "trend list"
  d_severityDistribution :: "severityEntry list"
  d_locationHotspots :: "hotspot list"
  d_typeBreakdown :: "typeShare list"
  d_timePatterns :: "timePattern list"
  d_riskAssessment :: "riskFactor list"

record analytics =
  analyticsData :: "AnalyticsData option"
  timeRange :: string
  selectedMetric :: string
  aa_isLoading :: bool

definition loadAnalyticsData ::
  "host \<Rightarrow> (nat \<Rightarrow> int) \<Rightarrow> (nat \<Rightarrow> rat) \<Rightarrow> signal fetched \<Rightarrow> event fetched \<Rightarrow> analytics \<Rightarrow> analytics" where
  "loadAnalyticsData h now rnd signalsResult eventsResult st =
     (case (signalsResult, eventsResult) of
        (Inr sd, Inr ed) \<Rightarrow>
          (let signals = dataOrEmpty sd; events = dataOrEmpty ed in
           st\<lparr>analyticsData := Some
                \<lparr>d_signalTrends = generateSignalTrends h now rnd signals (timeRange st),
                 d_severityDistribution = severityDistribution signals,
                 d_locationHotspots = locationHotspots signals,
                 d_typeBreakdown = typeBreakdown signals,
                 d_timePatterns = generateTimePatterns h signals,
                 d_riskAssessment = riskAssessment signals events\<rparr>,
              aa_isLoading := False\<rparr>)
      | _ \<Rightarrow> st\<lparr>aa_isLoading := False\<rparr>)"

section \<open>NotificationCenter\<close>

record Notification =
  n_id :: string
  n_type :: string
  n_title :: string
  n_message :: string
  n_severity :: string
  n_timestamp :: string
  n_read :: bool
  n_actionUrl :: "string option"

record center =
  notifications :: "Notification list"
  nc_filter :: string
  nc_isLoading :: bool

definition alertNotification :: "alert \<Rightarrow> Notification" where
  "alertNotification a =
     \<lparr>n_id = ''alert-'' @ a_id a,
      n_type = ''alert'',
      n_title = a_title a,
      n_message = ''Health alert issued for '' @ a_location a,
      n_severity = a_severity a,
      n_timestamp = a_issued_at a,
      n_read = False,
      n_actionUrl = Some ''/alerts''\<rparr>"

definition eventNotification :: "event \<Rightarrow> Notification" where
  "eventNotification e =
     \<lparr>n_id = ''event-'' @ e_id e,
      n_type = ''event'',
      n_title = e_title e,
      n_message = toString (e_signal_count e) @ '' signals detected in '' @ e_location e,
      n_severity = e_severity e,
      n_timestamp = e_created_at e,
      n_read = False,
      n_actionUrl = Some (''/event/'' @ e_id e)\<rparr>"

definition systemNotifications :: "host \<Rightarrow> int \<Rightarrow> Notification list" where
  "systemNotifications h now =
     [\<lparr>n_id = ''system-1'',
       n_type = ''system'',
       n_title = ''AI Model Updated'',
       n_message = ''Detection algorithms have been improved for better accuracy'',
       n_severity = ''low'',
       n_timestamp = toISOString h (now - 2 * 60 * 60 * 1000),
       n_read = False,
       n_actionUrl = None\<rparr>]"

text \<open>
  \<open>(a, b) => new Date(b.ts).getTime() - new Date(a.ts).getTime()\<close>: the
  difference is \<open>NaN\<close> as soon as one of the two dates is invalid.
\<close>

definition byTimeDesc :: "host \<Rightarrow> ('a \<Rightarrow> string) \<Rightarrow> 'a \<Rightarrow> 'a \<Rightarrow> int option" where
  "byTimeDesc h ts a b =
     (case parse h (ts b) of
        None \<Rightarrow> None
      | Some tb \<Rightarrow> (case parse h (ts a) of None \<Rightarrow> None | Some ta \<Rightarrow> Some (tb - ta)))"

definition activeEventsOf :: "event list \<Rightarrow> event list" where
  "activeEventsOf events = filter (\<lambda>e. e_status e = ''active'') events"

definition mergedNotifications :: "host \<Rightarrow> int \<Rightarrow> alert list \<Rightarrow> event list \<Rightarrow> Notification list" where
  "mergedNotifications h now alerts events =
     map alertNotification alerts @ map eventNotification (activeEventsOf events)
       @ systemNotifications h now"

definition allNotifications :: "host \<Rightarrow> int \<Rightarrow> alert list \<Rightarrow> event list \<Rightarrow> Notification list" where
  "allNotifications h now alerts events =
     take 20 (sortBy (byTimeDesc h n_timestamp) (mergedNotifications h now alerts events))"

definition loadNotifications :: "host \<Rightarrow> int \<Rightarrow> alert fetched \<Rightarrow> event fetched \<Rightarrow> center \<Rightarrow> center" where
  "loadNotifications h now alertsResult eventsResult st =
     (case (alertsResult, eventsResult) of
        (Inr ad, Inr ed) \<Rightarrow>
          st\<lparr>notifications := allNotifications h now (dataOrEmpty ad) (dataOrEmpty ed),
             nc_isLoading := False\<rparr>
      | _ \<Rightarrow> st\<lparr>nc_isLoading := False\<rparr>)"

definition markAsRead :: "string \<Rightarrow> center \<Rightarrow> center" where
  "markAsRead ident st =
     st\<lparr>notifications := map (\<lambda>notif. if n_id notif = ident then notif\<lparr>n_read := True\<rparr> else notif)
                               (notifications st)\<rparr>"

definition markAllAsRead :: "center \<Rightarrow> center" where
  "markAllAsRead st = st\<lparr>notifications := map (\<lambda>notif. notif\<lparr>n_read := True\<rparr>) (notifications st)\<rparr>"

definition filteredNotifications :: "center \<Rightarrow> Notification list" where
  "filteredNotifications st =
     filter (\<lambda>notif. if nc_filter st = ''unread'' then \<not> n_read notif
                      else if nc_filter st = ''high'' then n_severity notif = ''high''
                      else True)
            (notifications st)"

definition unreadCount :: "center \<Rightarrow> nat" where
  "unreadCount st = length (filter (\<lambda>n. \<not> n_read n) (notifications st))"

section \<open>RealTimeMonitor\<close>

text \<open>
  A field of a synthesized signal is read from a literal array at a random
  index; \<open>None\<close> stands for \<open>undefined\<close>, the value of a read outside the array.
\<close>

record SignalUpdate =
  u_id :: string
  u_type :: "string option"
  u_location :: "string option"
  u_severity :: "string option"
  u_timestamp :: string
  u_isNew :: "bool option"

datatype health = Healthy | Warning | Critical

record SystemStatus =
  isConnected :: bool
  lastUpdate :: string
  signalsPerMinute :: int
  systemHealth :: health

record Stats =
  totalToday :: nat
  highSeverity :: nat
  activeEvents :: nat
  avgResponseTime :: string

record monitor =
  isMonitoring :: bool
  recentSignals :: "SignalUpdate list"
  systemStatus :: SystemStatus
  stats :: Stats

definition initialMonitor :: "host \<Rightarrow> int \<Rightarrow> monitor" where
  "initialMonitor h now =
     \<lparr>isMonitoring = True,
      recentSignals = [],
      systemStatus = \<lparr>isConnected = True, lastUpdate = toISOString h now,
                       signalsPerMinute = 0, systemHealth = Healthy\<rparr>,
      stats = \<lparr>totalToday = 0, highSeverity = 0, activeEvents = 0, avgResponseTime = ''2.3s''\<rparr>\<rparr>"

text \<open>
  The readings of the clock and of \<open>Math.random()\<close> that a call consumes are
  inputs of the model.
\<close>

record loadDraws =
  todayNow :: int
  loadUpdateNow :: int
  loadSpmDraw :: rat

record draws =
  gate :: rat
  idNow :: int
  typeDraw :: rat
  locationDraw :: rat
  severityDraw :: rat
  stampNow :: int
  updateNow :: int
  spmDraw :: rat
  healthDraw :: rat

definition toSignalUpdate :: "signal \<Rightarrow> SignalUpdate" where
  "toSignalUpdate s =
     \<lparr>u_id = s_id s, u_type = Some (s_type s), u_location = Some (s_location s),
      u_severity = Some (s_severity s), u_timestamp = s_created_at s, u_isNew = None\<rparr>"

definition loadInitialData :: "host \<Rightarrow> loadDraws \<Rightarrow> signal fetched \<Rightarrow> event fetched \<Rightarrow> monitor \<Rightarrow> monitor" where
  "loadInitialData h d signalsResult eventsResult st =
     (case (signalsResult, eventsResult) of
        (Inr sd, Inr ed) \<Rightarrow>
          (let signals = dataOrEmpty sd; events = dataOrEmpty ed;
               sorted_signals = sortBy (byTimeDesc h s_created_at) signals;
               recent = map toSignalUpdate (take 10 sorted_signals);
               today = firstSegment (CHR ''T'') (toISOString h (todayNow d));
               todaySignals = filter (\<lambda>s. startsWith (s_created_at s) today) sorted_signals
           in st\<lparr>recentSignals := recent,
                 stats := \<lparr>totalToday = length todaySignals,
                            highSeverity = severityCount ''high'' sorted_signals,
                            activeEvents = length (activeEventsOf events),
                            avgResponseTime = ''2.3s''\<rparr>,
                 systemStatus := (systemStatus st)
                    \<lparr>lastUpdate := toISOString h (loadUpdateNow d),
                     signalsPerMinute := \<lfloor>fl (loadSpmDraw d * 5)\<rfloor> + 1\<rparr>\<rparr>)
      | _ \<Rightarrow> st\<lparr>systemStatus := (systemStatus st)\<lparr>isConnected := False, systemHealth := Critical\<rparr>\<rparr>)"

text \<open>\<open>xs[Math.floor(r * xs.length)]\<close> for a literal array \<open>xs\<close>.\<close>

definition pick :: "'a list \<Rightarrow> rat \<Rightarrow> 'a option" where
  "pick xs r =
     (let i = \<lfloor>fl (r * rat_of_nat (length xs))\<rfloor>
      in if 0 \<le> i \<and> i < int (length xs) then Some (xs ! nat i) else None)"

definition toStringInt :: "int \<Rightarrow> string" where
  "toStringInt i = (if i < 0 then ''-'' @ toString (nat (- i)) else toString (nat i))"

definition newSignal :: "host \<Rightarrow> draws \<Rightarrow> SignalUpdate" where
  "newSignal h d =
     \<lparr>u_id = ''signal-'' @ toStringInt (idNow d),
      u_type = pick [''Cough'', ''Fever'', ''Respiratory'', ''Environmental''] (typeDraw d),
      u_location = pick [''Mumbai, Andheri'', ''Delhi, Central'', ''Bangalore, Tech Park'',
                         ''Chennai, T Nagar''] (locationDraw d),
      u_severity = pick [''low'', ''medium'', ''high''] (severityDraw d),
      u_timestamp = toISOString h (stampNow d),
      u_isNew = Some True\<rparr>"

text \<open>\<open>Math.random() > 0.7\<close>: whether the tick synthesizes a signal.\<close>

definition synthesizes :: "draws \<Rightarrow> bool" where
  "synthesizes d = (gate d > 7 / 10)"

definition simulateRealTimeUpdate :: "host \<Rightarrow> draws \<Rightarrow> monitor \<Rightarrow> monitor" where
  "simulateRealTimeUpdate h d st =
     (let st1 =
        (if synthesizes d then
           st\<lparr>recentSignals := newSignal h d # take 9 (recentSignals st),
              stats := (stats st)
                \<lparr>totalToday := totalToday (stats st) + 1,
                 highSeverity := (if u_severity (newSignal h d) = Some ''high''
                                  then highSeverity (stats st) + 1
                                  else highSeverity (stats st))\<rparr>\<rparr>
         else st)
      in st1\<lparr>systemStatus := (systemStatus st1)
               \<lparr>lastUpdate := toISOString h (updateNow d),
                signalsPerMinute := \<lfloor>fl (spmDraw d * 8)\<rfloor> + 1,
                systemHealth := (if healthDraw d > 9 / 10 then Warning else Healthy)\<rparr>\<rparr>)"

text \<open>The callback scheduled two seconds after a signal was synthesized.\<close>

definition clearNewFlag :: "string \<Rightarrow> monitor \<Rightarrow> monitor" where
  "clearNewFlag ident st =
     st\<lparr>recentSignals := map (\<lambda>signal. if u_id signal = ident then signal\<lparr>u_isNew := Some False\<rparr>
                                         else signal)
                               (recentSignals st)\<rparr>"

text \<open>
  Everything that changes the monitor's state: the load (on mount and on each
  toggle), the interval's tick, the delayed callback and the toggle itself.
\<close>

datatype action =
    LoadInitialData loadDraws "signal fetched" "event fetched"
  | SimulateRealTimeUpdate draws
  | ClearNewFlag string
  | ToggleMonitoring

fun step :: "host \<Rightarrow> monitor \<Rightarrow> action \<Rightarrow> monitor" where
  "step h st (LoadInitialData d sr er) = loadInitialData h d sr er st"
| "step h st (SimulateRealTimeUpdate d) = simulateRealTimeUpdate h d st"
| "step h st (ClearNewFlag ident) = clearNewFlag ident st"
| "step h st ToggleMonitoring = st\<lparr>isMonitoring := \<not> isMonitoring st\<rparr>"

definition run :: "host \<Rightarrow> monitor \<Rightarrow> action list \<Rightarrow> monitor" where
  "run h st acts = foldl (step h) st acts"

section \<open>Sample records\<close>

definition sampleSignal :: "string \<Rightarrow> string \<Rightarrow> string \<Rightarrow> string \<Rightarrow> signal" where
  "sampleSignal ty loc sev ts =
     \<lparr>s_id = ''s-'' @ ts, s_type = ty, s_location = loc, s_severity = sev, s_created_at = ts\<rparr>"

definition hotspotSample :: "signal list" where
  "hotspotSample =
     replicate 10 (sampleSignal ''Fever'' ''Delhi, Central'' ''low'' ''2024-01-05T10:00:00Z'')
     @ replicate 11 (sampleSignal ''Cough'' ''Mumbai, Andheri'' ''high'' ''2024-01-06T10:00:00Z'')"

definition typeSample :: "signal list" where
  "typeSample =
     [sampleSignal ''Fever'' ''Delhi, Central'' ''low'' ''2024-01-05T10:00:00Z'',
      sampleSignal ''Cough'' ''Mumbai, Andheri'' ''high'' ''2024-01-06T10:00:00Z'',
      sampleSignal ''Cough'' ''Mumbai, Andheri'' ''low'' ''2024-01-06T11:00:00Z'']"

definition sampleParse :: "(string \<times> int) list" where
  "sampleParse =
     [(''2024-01-05T10:00:00Z'', 1704448800000),
      (''2024-01-06T10:00:00Z'', 1704535200000),
      (''2024-01-06T11:00:00Z'', 1704538800000),
      (''2024-01-06T09:00:00.000Z'', 1704531600000)]"

definition sampleIso :: "(int \<times> string) list" where
  "sampleIso =
     [(1704538800000, ''2024-01-06T11:00:00.000Z''),
      (1704452400000, ''2024-01-05T11:00:00.000Z''),
      (1704366000000, ''2024-01-04T11:00:00.000Z''),
      (1704279600000, ''2024-01-03T11:00:00.000Z''),
      (1704193200000, ''2024-01-02T11:00:00.000Z''),
      (1704106800000, ''2024-01-01T11:00:00.000Z''),
      (1704020400000, ''2023-12-31T11:00:00.000Z''),
      (1704531600000, ''2024-01-06T09:00:00.000Z'')]"

definition sampleHost :: host where
  "sampleHost =
     \<lparr>parse = map_of sampleParse,
      toISOString = (\<lambda>t. case map_of sampleIso t of Some s \<Rightarrow> s | None \<Rightarrow> ''1970-01-01T00:00:00.000Z''),
      localTZA = (\<lambda>t. 19800000),
      minusDays = (\<lambda>t i. t - int i * 86400000),
      toLocaleDateString = (\<lambda>t. ''Jan'')\<rparr>"

definition sampleNow :: int where
  "sampleNow = 1704538800000"

definition tickHigh :: draws where
  "tickHigh = \<lparr>gate = 8 / 10, idNow = 1704538800000, typeDraw = 1 / 10, locationDraw = 1 / 2,
               severityDraw = 9 / 10, stampNow = 1704538800000, updateNow = 1704538800000,
               spmDraw = 1 / 4, healthDraw = 1 / 2\<rparr>"

definition tickIdle :: draws where
  "tickIdle = \<lparr>gate = 1 / 2, idNow = 1704538800000, typeDraw = 1 / 10, locationDraw = 1 / 2,
               severityDraw = 9 / 10, stampNow = 1704538800000, updateNow = 1704538800000,
               spmDraw = 1 / 4, healthDraw = 1 / 2\<rparr>"

definition sampleLoad :: loadDraws where
  "sampleLoad = \<lparr>todayNow = 1704538800000, loadUpdateNow = 1704538800000, loadSpmDraw = 1 / 2\<rparr>"

definition sampleActions :: "action list" where
  "sampleActions =
     [LoadInitialData sampleLoad (Inr (Some (hotspotSample @ typeSample))) (Inr None),
      SimulateRealTimeUpdate tickHigh,
      ClearNewFlag ''signal-1704538800000'',
      SimulateRealTimeUpdate tickIdle,
      ToggleMonitoring,
      LoadInitialData sampleLoad (Inl FetchError) (Inr None)]"

definition sampleAlert :: alert where
  "sampleAlert = \<lparr>a_id = ''a1'', a_title = ''Dengue advisory'', a_location = ''Mumbai, Andheri'',
                   a_severity = ''high'', a_issued_at = ''2024-01-05T10:00:00Z''\<rparr>"

definition sampleEvents :: "event list" where
  "sampleEvents =
     [\<lparr>e_id = ''e1'', e_title = ''Fever cluster'', e_location = ''Delhi, Central'', e_severity = ''medium'',
       e_signal_count = 12, e_status = ''active'', e_created_at = ''2024-01-06T10:00:00Z''\<rparr>,
      \<lparr>e_id = ''e2'', e_title = ''Cough cluster'', e_location = ''Chennai, T Nagar'', e_severity = ''low'',
       e_signal_count = 3, e_status = ''resolved'', e_created_at = ''2024-01-06T11:00:00Z''\<rparr>]"

definition emptyCenter :: center where
  "emptyCenter = \<lparr>notifications = [], nc_filter = ''all'', nc_isLoading = True\<rparr>"

definition idleAnalytics :: analytics where
  "idleAnalytics = \<lparr>analyticsData = None, timeRange = ''7d'', selectedMetric = ''signals'',
                     aa_isLoading = False\<rparr>"

definition sampleClock :: "nat \<Rightarrow> int" where
  "sampleClock i = sampleNow"

definition sampleRnd :: "nat \<Rightarrow> rat" where
  "sampleRnd i = 1 / 2"

definition trendSample :: "signal list" where
  "trendSample = sampleSignal ''Fever'' ''Pune, Camp'' ''medium'' ''2023-11-01T08:00:00Z'' # typeSample"

definition constructorSample :: "signal list" where
  "constructorSample =
     replicate 11 (sampleSignal ''Fever'' ''constructor, Block A'' ''high'' ''2024-01-05T10:00:00Z'')"


text \<open>
  The host of a browser in the time zone Europe/Berlin around the start of
  daylight saving time on 2024-03-31 (01:00 UTC), read at 01:30 local time on
  2024-04-01: the local day before is 23 hours long.
\<close>

definition berlinIso :: "(int \<times> string) list" where
  "berlinIso =
     [(1711927800000, ''2024-03-31T23:30:00.000Z''),
      (1711845000000, ''2024-03-31T00:30:00.000Z''),
      (1711758600000, ''2024-03-30T00:30:00.000Z''),
      (1711672200000, ''2024-03-29T00:30:00.000Z''),
      (1711585800000, ''2024-03-28T00:30:00.000Z''),
      (1711499400000, ''2024-03-27T00:30:00.000Z''),
      (1711413000000, ''2024-03-26T00:30:00.000Z'')]"

definition berlinLabel :: "(int \<times> string) list" where
  "berlinLabel =
     [(1711927800000, ''Apr 1''), (1711845000000, ''Mar 31''), (1711758600000, ''Mar 30''),
      (1711672200000, ''Mar 29''), (1711585800000, ''Mar 28''), (1711499400000, ''Mar 27''),
      (1711413000000, ''Mar 26'')]"

definition berlinHost :: host where
  "berlinHost =
     \<lparr>parse = map_of [(''2024-03-31T12:00:00+00:00'', 1711886400000)],
      toISOString = (\<lambda>t. case map_of berlinIso t of Some s \<Rightarrow> s | None \<Rightarrow> ''1970-01-01T00:00:00.000Z''),
      localTZA = (\<lambda>t. if t < 1711846800000 then 3600000 else 7200000),
      minusDays = (\<lambda>t i. let l = t + (if t < 1711846800000 then 3600000 else 7200000)
                                    - int i * 86400000
                           in l - (if l < 1711850400000 then 3600000 else 7200000)),
      toLocaleDateString = (\<lambda>t. case map_of berlinLabel t of Some s \<Rightarrow> s | None \<Rightarrow> ''Jan 1'')\<rparr>"

definition berlinClock :: "nat \<Rightarrow> int" where
  "berlinClock i = 1711927800000"

definition berlinSignal :: signal where
  "berlinSignal = sampleSignal ''Fever'' ''Berlin, Mitte'' ''low'' ''2024-03-31T12:00:00+00:00''"

section \<open>Sorting by a key\<close>

text \<open>On the set \<open>A\<close> the comparator is the descending order of \<open>key\<close>.\<close>

definition keyDesc :: "('a \<Rightarrow> 'a \<Rightarrow> int option) \<Rightarrow> ('a \<Rightarrow> int) \<Rightarrow> 'a set \<Rightarrow> bool" where
  "keyDesc cmp key A = (\<forall>x\<in>A. \<forall>y\<in>A. cmp x y = Some (key y - key x))"

text \<open>
  The time value of a timestamp (0 where the date is invalid), and the lists all
  of whose timestamps are valid dates: on them the comparator by time is a
  consistent ordering.
\<close>

definition timeOf :: "host \<Rightarrow> string \<Rightarrow> int" where
  "timeOf h s = (case parse h s of None \<Rightarrow> 0 | Some t \<Rightarrow> t)"

definition validTimes :: "host \<Rightarrow> ('a \<Rightarrow> string) \<Rightarrow> 'a list \<Rightarrow> bool" where
  "validTimes h ts xs = list_all (\<lambda>x. parse h (ts x) \<noteq> None) xs"

text \<open>The number a counter holds, 0 for a string.\<close>

fun countOf :: "jsval \<Rightarrow> nat" where
  "countOf (Count c) = c"
| "countOf (Text s) = 0"

section \<open>The window of the trend\<close>

text \<open>
  A signal is in the window of \<open>days\<close> days when its \<open>created_at\<close> starts with
  the date of one of the days.  The dates are those of a calendar when they
  are pairwise distinct and have the ten characters of \<open>YYYY-MM-DD\<close>, as
  \<open>toISOString\<close> renders the days of the years 0 to 9999.
\<close>

definition inWindow :: "host \<Rightarrow> (nat \<Rightarrow> int) \<Rightarrow> nat \<Rightarrow> signal \<Rightarrow> bool" where
  "inWindow h now days s = list_ex (\<lambda>i. startsWith (s_created_at s) (dateStr h now i)) [0..<days]"

definition calendarDates :: "host \<Rightarrow> (nat \<Rightarrow> int) \<Rightarrow> nat \<Rightarrow> bool" where
  "calendarDates h now days =
     (distinct (map (dateStr h now) [0..<days])
      \<and> list_all (\<lambda>i. length (dateStr h now i) = 10) [0..<days])"


section \<open>Properties of the sort\<close>

lemma mset_insertBy: "mset (insertBy cmp x ys) = add_mset x (mset ys)"
  by (induction ys) auto

lemma mset_sortBy: "mset (sortBy cmp xs) = mset xs"
  by (induction xs) (auto simp: sortBy_def mset_insertBy)

lemma set_sortBy: "set (sortBy cmp xs) = set xs"
  using mset_sortBy [of cmp xs] by (metis set_mset_mset)

lemma length_sortBy: "length (sortBy cmp xs) = length xs"
  using mset_sortBy [of cmp xs] by (metis size_mset)

lemma sorted_insertBy:
  assumes "keyDesc cmp key (insert x (set ys))"
    and "sorted_wrt (\<lambda>a b. key b \<le> key a) ys"
  shows "sorted_wrt (\<lambda>a b. key b \<le> key a) (insertBy cmp x ys)"
  using assms
proof (induction ys)
  case Nil
  then show ?case by simp
next
  case (Cons y ys)
  have c: "cmp x y = Some (key y - key x)"
    using Cons.prems(1) by (simp add: keyDesc_def)
  have k: "keyDesc cmp key (insert x (set ys))"
    using Cons.prems(1) by (simp add: keyDesc_def)
  show ?case
  proof (cases "key y \<le> key x")
    case True
    then show ?thesis using Cons.prems(2) c by auto
  next
    case False
    have "sorted_wrt (\<lambda>a b. key b \<le> key a) (insertBy cmp x ys)"
      using Cons.IH k Cons.prems(2) by simp
    moreover have "\<forall>z\<in>set (insertBy cmp x ys). key z \<le> key y"
      using False Cons.prems(2) mset_insertBy [of cmp x ys]
      by (metis insert_iff linorder_le_cases set_mset_add_mset_insert set_mset_mset sorted_wrt.simps(2))
    ultimately show ?thesis using False c by simp
  qed
qed

lemma sorted_sortBy:
  "keyDesc cmp key (set xs) \<Longrightarrow> sorted_wrt (\<lambda>a b. key b \<le> key a) (sortBy cmp xs)"
proof (induction xs)
  case Nil
  then show ?case by (simp add: sortBy_def)
next
  case (Cons x xs)
  have "keyDesc cmp key (set xs)" using Cons.prems by (simp add: keyDesc_def)
  then have s: "sorted_wrt (\<lambda>a b. key b \<le> key a) (sortBy cmp xs)" using Cons.IH by simp
  have "keyDesc cmp key (insert x (set (sortBy cmp xs)))"
    using Cons.prems by (simp add: set_sortBy)
  then show ?case using sorted_insertBy [OF _ s] by (simp add: sortBy_def)
qed

lemma keyDesc_byTimeDesc:
  "validTimes h ts xs \<Longrightarrow> keyDesc (byTimeDesc h ts) (\<lambda>x. timeOf h (ts x)) (set xs)"
  unfolding validTimes_def keyDesc_def byTimeDesc_def timeOf_def list_all_iff
  by (intro ballI) (fastforce split: option.splits)

lemma sorted_byTimeDesc:
  "validTimes h ts xs \<Longrightarrow>
     sorted_wrt (\<lambda>a b. timeOf h (ts b) \<le> timeOf h (ts a)) (sortBy (byTimeDesc h ts) xs)"
  by (rule sorted_sortBy) (rule keyDesc_byTimeDesc)

section \<open>Properties of the doubles\<close>

lemma log2floor_nonneg: "0 \<le> log2floor n"
  by (induction n rule: log2floor.induct) (simp add: log2floor.simps)

lemma log2floor_bounds:
  "1 \<le> n \<Longrightarrow> 2 ^ nat (log2floor n) \<le> n \<and> n < 2 * 2 ^ nat (log2floor n)"
proof (induction n rule: log2floor.induct)
  case (1 n)
  show ?case
  proof (cases "n \<le> 1")
    case True
    with "1.prems" have "n = 1" by simp
    then show ?thesis by (simp add: log2floor.simps)
  next
    case False
    then have h: "1 \<le> n div 2" by simp
    have l: "log2floor n = 1 + log2floor (n div 2)"
      using False by (subst log2floor.simps) simp
    have e: "nat (log2floor n) = Suc (nat (log2floor (n div 2)))"
      using log2floor_nonneg [of "n div 2"] by (simp add: l nat_add_distrib)
    from "1.IH" [OF False h]
    have lo: "2 ^ nat (log2floor (n div 2)) \<le> n div 2"
      and hi: "n div 2 < 2 * 2 ^ nat (log2floor (n div 2))" by blast+
    have "2 * 2 ^ nat (log2floor (n div 2)) \<le> n" using lo by linarith
    moreover have "n < 2 * (2 * 2 ^ nat (log2floor (n div 2)))" using hi by linarith
    ultimately show ?thesis by (simp add: e)
  qed
qed

text \<open>The exponent is not above the true one.\<close>

lemma exponentOf_lower:
  assumes "0 < a" and "0 < b"
  shows "if 0 \<le> exponentOf a b then b * 2 ^ nat (exponentOf a b) \<le> a
         else b \<le> a * 2 ^ nat (- exponentOf a b)"
proof -
  define la where "la = log2floor a"
  define lb where "lb = log2floor b"
  have a: "2 ^ nat la \<le> a" and b: "b < 2 * 2 ^ nat lb"
    using log2floor_bounds [of a] log2floor_bounds [of b] assms by (simp_all add: la_def lb_def)
  have nn: "0 \<le> la" "0 \<le> lb" by (simp_all add: la_def lb_def log2floor_nonneg)
  define d where "d = la - lb"
  have key: "b * 2 ^ nat (la - lb + k) < 2 * 2 ^ nat (la + k)" if "0 \<le> la - lb + k" "0 \<le> k" for k
  proof -
    have "b * 2 ^ nat (la - lb + k) < (2 * 2 ^ nat lb) * 2 ^ nat (la - lb + k)"
      using b by simp
    also have "\<dots> = 2 * 2 ^ (nat lb + nat (la - lb + k))" by (simp add: power_add)
    also have "nat lb + nat (la - lb + k) = nat (la + k)" using nn that by linarith
    finally show ?thesis .
  qed
  show ?thesis
  proof (cases "0 \<le> d")
    case True
    show ?thesis
    proof (cases "b * 2 ^ nat d \<le> a")
      case t: True
      then show ?thesis using True by (simp add: exponentOf_def Let_def d_def la_def lb_def)
    next
      case False
      have e: "exponentOf a b = d - 1"
        using True False by (simp add: exponentOf_def Let_def d_def la_def lb_def)
      show ?thesis
      proof (cases "1 \<le> d")
        case True
        have "2 * (b * 2 ^ nat (d - 1)) = b * 2 ^ nat d"
          using True by (metis Suc_nat_eq_nat_zadd1 add.commute diff_add_cancel diff_ge_0_iff_ge mult.left_commute power_Suc)
        also have "\<dots> < 2 * 2 ^ nat la" using key [of 0] True by (simp add: d_def)
        finally have "b * 2 ^ nat (d - 1) < 2 ^ nat la" by simp
        then show ?thesis using a True e by simp
      next
        case False
        then have d0: "d = 0" using \<open>0 \<le> d\<close> by simp
        have "b < 2 * 2 ^ nat la" using b d0 by (simp add: d_def)
        then have "b \<le> a * 2" using a by linarith
        then show ?thesis using e d0 by simp
      qed
    qed
  next
    case False
    then have neg: "d < 0" by simp
    show ?thesis
    proof (cases "b \<le> a * 2 ^ nat (- d)")
      case True
      then show ?thesis using neg by (simp add: exponentOf_def Let_def d_def la_def lb_def)
    next
      case f: False
      have e: "exponentOf a b = d - 1"
        using neg f by (simp add: exponentOf_def Let_def d_def la_def lb_def)
      have "lb = la + (- d)" by (simp add: d_def)
      then have "nat lb = nat la + nat (- d)" using nn neg by linarith
      then have "2 * 2 ^ nat lb = (2::int) ^ nat la * (2 * 2 ^ nat (- d))"
        by (simp add: power_add)
      also have "\<dots> \<le> a * (2 * 2 ^ nat (- d))" using a by (simp add: mult_right_mono)
      finally have "b \<le> a * (2 * 2 ^ nat (- d))" using b by linarith
      moreover have "nat (- (d - 1)) = Suc (nat (- d))" using neg by linarith
      ultimately show ?thesis using e neg by simp
    qed
  qed
qed

lemma nearestEven_nonneg: "0 \<le> num \<Longrightarrow> 0 < den \<Longrightarrow> 0 \<le> nearestEven num den"
  by (simp add: nearestEven_def Let_def pos_imp_zdiv_nonneg_iff)

lemma nearestEven_le:
  assumes "num \<le> N * den" and "0 < den"
  shows "nearestEven num den \<le> N"
proof -
  have "num div den \<le> (N * den) div den"
    using assms by (rule zdiv_mono1)
  then have f: "num div den \<le> N"
    using assms(2) by simp
  show ?thesis
  proof (cases "num div den = N")
    case True
    have "num = den * (num div den) + num mod den" by simp
    then have "num mod den \<le> 0" using assms(1) True by (simp add: mult.commute)
    moreover have "0 \<le> num mod den" using assms(2) by simp
    ultimately have "num mod den = 0" by simp
    then show ?thesis using True assms(2) by (simp add: nearestEven_def Let_def)
  next
    case False
    then have "num div den + 1 \<le> N" using f by simp
    then show ?thesis using f by (simp add: nearestEven_def Let_def)
  qed
qed

lemma toDouble_nonneg: "0 \<le> a \<Longrightarrow> 0 < b \<Longrightarrow> 0 \<le> toDouble a b"
  by (simp add: toDouble_def Let_def nearestEven_nonneg)

lemma toDouble_le:
  assumes "0 \<le> a" and "0 < b" and "a \<le> N * b" and "N < 2 ^ 53"
  shows "toDouble a b \<le> rat_of_int N"
proof (cases "a = 0")
  case True
  then have "0 \<le> N * b" using assms(3) by simp
  then have "0 \<le> N" using assms(2) by (simp add: zero_le_mult_iff)
  then show ?thesis using True by (simp add: toDouble_def)
next
  case False
  then have pos: "0 < a" using assms(1) by simp
  define e where "e = exponentOf a b"
  have le52: "e \<le> 52"
  proof (rule ccontr)
    assume "\<not> e \<le> 52"
    then have big: "53 \<le> e" by simp
    then have "b * 2 ^ nat e \<le> a"
      using exponentOf_lower [OF pos assms(2)] by (simp add: e_def)
    moreover have "(2::int) ^ 53 \<le> 2 ^ nat e"
      using big by (intro power_increasing) auto
    ultimately have "b * 2 ^ 53 \<le> a"
      using assms(2) by (meson mult_left_mono order_less_imp_le order_trans)
    then have "b * 2 ^ 53 \<le> N * b" using assms(3) by simp
    then have "2 ^ 53 \<le> N" using assms(2) by (simp add: mult.commute)
    then show False using assms(4) by simp
  qed
  have "a * 2 ^ nat (52 - e) \<le> (N * 2 ^ nat (52 - e)) * b"
    using assms(3) by (simp add: mult.assoc mult.left_commute mult_right_mono)
  then have "nearestEven (a * 2 ^ nat (52 - e)) b \<le> N * 2 ^ nat (52 - e)"
    using assms(2) by (rule nearestEven_le)
  then have "rat_of_int (nearestEven (a * 2 ^ nat (52 - e)) b) \<le> rat_of_int (N * 2 ^ nat (52 - e))"
    by (simp only: of_int_le_iff)
  then have "rat_of_int (nearestEven (a * 2 ^ nat (52 - e)) b) / 2 ^ nat (52 - e) \<le> rat_of_int N"
    by (simp add: pos_divide_le_eq)
  then show ?thesis using False le52 by (simp add: toDouble_def Let_def e_def)
qed

lemma fl_bounds:
  assumes "0 \<le> q" and "q \<le> rat_of_int N" and "N < 2 ^ 53"
  shows "0 \<le> fl q \<and> fl q \<le> rat_of_int N"
proof -
  obtain p d where pd: "quotient_of q = (p, d)" by (cases "quotient_of q")
  have d: "0 < d" using pd by (rule quotient_of_denom_pos)
  have q: "q = rat_of_int p / rat_of_int d" using pd by (rule quotient_of_div)
  have p: "0 \<le> p" using assms(1) d q by (simp add: zero_le_divide_iff)
  have "rat_of_int p \<le> rat_of_int N * rat_of_int d"
    using assms(2) d q by (simp add: pos_divide_le_eq)
  then have "p \<le> N * d" by (metis of_int_le_iff of_int_mult)
  then have "toDouble p d \<le> rat_of_int N" using p d assms(3) by (intro toDouble_le)
  moreover have "0 \<le> toDouble p d" using p d by (rule toDouble_nonneg)
  ultimately show ?thesis using p by (simp add: fl_def pd)
qed

lemma fl_nonneg:
  assumes "0 \<le> q"
  shows "0 \<le> fl q"
proof -
  obtain p d where pd: "quotient_of q = (p, d)" by (cases "quotient_of q")
  have d: "0 < d" using pd by (rule quotient_of_denom_pos)
  have q: "q = rat_of_int p / rat_of_int d" using pd by (rule quotient_of_div)
  have p: "0 \<le> p" using assms d q by (simp add: zero_le_divide_iff)
  then show ?thesis using d by (simp add: fl_def pd toDouble_nonneg)
qed

text \<open>A share of a total, times 100, is a number between 0 and 100.\<close>

lemma in_0_100_share:
  assumes "a \<le> b" and "0 < b"
  shows "in_0_100 (times100 (jsdiv a b))"
proof -
  have "toDouble (int a) (int b) \<le> rat_of_int 1"
    using assms by (intro toDouble_le) simp_all
  moreover have "0 \<le> toDouble (int a) (int b)"
    using assms by (intro toDouble_nonneg) simp_all
  ultimately have "0 \<le> toDouble (int a) (int b) * 100"
    and "toDouble (int a) (int b) * 100 \<le> rat_of_int 100"
    by simp_all
  then have "0 \<le> fl (toDouble (int a) (int b) * 100) \<and> fl (toDouble (int a) (int b) * 100) \<le> rat_of_int 100"
    by (rule fl_bounds) simp
  then show ?thesis using assms(2) by (simp add: jsdiv_def)
qed

section \<open>RiskScoreEstimator\<close>

text \<open>
  With at least one signal the six factors are finite and lie between 0 and
  100, and the severity factor is the share of high-severity signals times 100.
\<close>

lemma severityCount_le: "severityCount sev signals \<le> length signals"
  by (simp add: severityCount_def)

lemma severity_level_some_signals:
  "rf_value (riskAssessment signals events ! 1) =
     times100 (jsdiv (severityCount ''high'' signals) (length signals))"
  by (simp add: riskAssessment_def severityDistribution_def)

lemma riskAssessment_in_range_some_signals:
  assumes "signals \<noteq> []"
  shows "list_all (\<lambda>f. in_0_100 (rf_value f)) (riskAssessment signals events)"
proof -
  have "in_0_100 (times100 (jsdiv (severityCount ''high'' signals) (length signals)))"
    using assms by (intro in_0_100_share severityCount_le) simp
  moreover have "in_0_100 (min100 (times100 (jsdiv (length signals) 100)))"
    by (simp add: jsdiv_def fl_nonneg toDouble_nonneg)
  ultimately show ?thesis
    by (simp add: riskAssessment_def severityDistribution_def)
qed

text \<open>
  C1.  The claim: each of the six risk factors is in [0,100] for every signal
  collection, and the Severity Level factor is 0 when there is no signal.
  On the code the claim fails for the empty collection: the factor is computed
  as \<open>highCount / signals.length * 100\<close> with no guard, which is \<open>0 / 0 * 100\<close>,
  that is \<open>NaN\<close>, a value outside every interval.  The theorem evaluates the
  code there.
\<close>

theorem severity_level_no_signals:
  "factor (riskAssessment [] events ! 1) = ''Severity Level''
   \<and> rf_value (riskAssessment [] events ! 1) = NaN
   \<and> \<not> in_0_100 (rf_value (riskAssessment [] events ! 1))"
  by (simp add: riskAssessment_def severityDistribution_def severityCount_def jsdiv_def)

section \<open>TimePatternBucketizer\<close>

lemma hourCounts_length: "length (hourCounts h signals) = 24"
proof -
  have "length (foldl (\<lambda>counts s. case getHours h (s_created_at s) of
                          None \<Rightarrow> counts
                        | Some hour \<Rightarrow> counts[hour := counts ! hour + 1]) acc signals) = length acc"
    for acc :: "nat list"
    by (induction signals arbitrary: acc) (auto split: option.splits)
  then show ?thesis by (simp add: hourCounts_def)
qed

lemma length_generateTimePatterns: "length (generateTimePatterns h signals) = 24"
  by (simp add: generateTimePatterns_def Let_def hourCounts_length)

lemma map_zip_upt: "map (\<lambda>(c, i). f c) (zip xs [0..<length xs]) = map f xs"
proof -
  have "map (\<lambda>(c, i). f c) zs = map f (map fst zs)" for zs :: "('b \<times> nat) list"
    by (simp add: split_def comp_def)
  then have "map (\<lambda>(c, i). f c) (zip xs [0..<length xs]) = map f (map fst (zip xs [0..<length xs]))"
    by blast
  also have "map fst (zip xs [0..<length xs]) = xs"
    by (rule map_fst_zip) simp
  finally show ?thesis .
qed

text \<open>Each bucket's normalized value is \<open>count / max * 100\<close> in JavaScript's arithmetic.\<close>

lemma normalized_formula:
  "map tp_normalized (generateTimePatterns h signals) =
     map (\<lambda>c. times100 (jsdiv c (maxCount (hourCounts h signals)))) (hourCounts h signals)"
proof -
  have "map tp_normalized (generateTimePatterns h signals) =
     map (\<lambda>(c, i). times100 (jsdiv c (maxCount (hourCounts h signals))))
       (zip (hourCounts h signals) [0..<length (hourCounts h signals)])"
    by (simp add: generateTimePatterns_def Let_def split_def)
  then show ?thesis by (simp only: map_zip_upt)
qed

lemma maxCount_zeros: "maxCount (replicate n 0) = 0"
  by (induction n) (simp_all add: maxCount_def)

text \<open>
  C2.  The claim: exactly 24 buckets, each normalized to \<open>count / max * 100\<close>, and
  every normalized value 0 for the empty collection, the division being
  guarded.  The code has no guard: for the empty collection the maximum of the
  24 counters is 0 and every normalized value is \<open>0 / 0 * 100\<close>, that is
  \<open>NaN\<close>.  The theorem evaluates the code there: 24 buckets, all \<open>NaN\<close>.
\<close>

theorem normalized_no_signals:
  "map tp_normalized (generateTimePatterns h []) = replicate 24 NaN"
  by (simp add: normalized_formula hourCounts_def maxCount_zeros jsdiv_def)

section \<open>Counting by key\<close>

text \<open>
  For a key that is not inherited, the counter of the key is the number of
  signals with the key, whatever the other keys are.
\<close>

lemma plainKey_not_proto: "plainKey k \<Longrightarrow> k \<noteq> ''__proto__''"
  by (auto simp: plainKey_def objectPrototype_def)

lemma map_of_assign: "map_of (assign k v xs) k' = (if k' = k then Some v else map_of xs k')"
  by (induction k v xs rule: assign.induct) auto

lemma fst_set_assign: "fst ` set (assign k v xs) = insert k (fst ` set xs)"
  by (induction k v xs rule: assign.induct) auto

lemma distinct_assign: "distinct (map fst xs) \<Longrightarrow> distinct (map fst (assign k v xs))"
  by (induction k v xs rule: assign.induct) (auto simp: fst_set_assign)

lemma distinct_increment: "distinct (map fst xs) \<Longrightarrow> distinct (map fst (increment k xs))"
  by (simp add: increment_def distinct_assign)

lemma fst_set_increment: "fst ` set (increment k xs) \<subseteq> insert k (fst ` set xs)"
  by (auto simp: increment_def fst_set_assign)

lemma map_of_increment:
  assumes "plainKey k"
  shows "map_of (increment k' xs) k =
     (if k' = k then Some (case map_of xs k of None \<Rightarrow> Count 1 | Some v \<Rightarrow> plusOne v)
      else map_of xs k)"
proof (cases "k' = k")
  case True
  have "map_of objectPrototype k = None" using assms by (simp add: plainKey_def)
  then show ?thesis
    using True plainKey_not_proto [OF assms]
    by (simp add: increment_def map_of_assign readPlusOne_def split: option.splits)
next
  case False
  then show ?thesis by (simp add: increment_def map_of_assign)
qed

lemma funpow_plusOne_Count: "(plusOne ^^ n) (Count c) = Count (c + n)"
  by (induction n) simp_all

lemma distinct_tally:
  "distinct (map fst acc) \<Longrightarrow>
     distinct (map fst (foldl (\<lambda>counts s. increment (key s) counts) acc signals))"
  by (induction signals arbitrary: acc) (auto simp: distinct_increment)

lemma keys_tally:
  "fst ` set (foldl (\<lambda>counts s. increment (key s) counts) acc signals)
     \<subseteq> fst ` set acc \<union> key ` set signals"
proof (induction signals arbitrary: acc)
  case Nil
  then show ?case by simp
next
  case (Cons s signals)
  show ?case
    using Cons.IH [of "increment (key s) acc"] fst_set_increment [of "key s" acc]
    by auto
qed

lemma map_of_tally:
  assumes "plainKey k"
  shows "map_of (foldl (\<lambda>counts s. increment (key s) counts) acc signals) k =
     (case map_of acc k of
        None \<Rightarrow> (if filter (\<lambda>s. key s = k) signals = [] then None
                 else Some (Count (length (filter (\<lambda>s. key s = k) signals))))
      | Some v \<Rightarrow> Some ((plusOne ^^ length (filter (\<lambda>s. key s = k) signals)) v))"
proof (induction signals arbitrary: acc)
  case Nil
  then show ?case by (simp split: option.splits)
next
  case (Cons s signals)
  show ?case
    by (simp add: Cons.IH map_of_increment [OF assms] funpow_plusOne_Count funpow_swap1
        split: option.splits)
qed

lemma countBy_entry:
  assumes "plainKey k"
  shows "(k, v) \<in> set (countBy key signals) \<longleftrightarrow>
     v = Count (length (filter (\<lambda>s. key s = k) signals))
     \<and> 0 < length (filter (\<lambda>s. key s = k) signals)"
proof -
  have d: "distinct (map fst (countBy key signals))"
    unfolding countBy_def by (rule distinct_tally) simp
  have "(k, v) \<in> set (countBy key signals) \<longleftrightarrow> map_of (countBy key signals) k = Some v"
    using d by simp
  also have "\<dots> \<longleftrightarrow> v = Count (length (filter (\<lambda>s. key s = k) signals))
     \<and> 0 < length (filter (\<lambda>s. key s = k) signals)"
    unfolding countBy_def by (auto simp: map_of_tally [OF assms])
  finally show ?thesis .
qed

lemma keys_countBy: "(k, v) \<in> set (countBy key signals) \<Longrightarrow> k \<in> key ` set signals"
  using keys_tally [of key "[]" signals] unfolding countBy_def by force

text \<open>The entries of an object are its own properties, in another order.\<close>

lemma map_snd_indexed: "map snd (indexed obj) = filter (\<lambda>(k, v). arrayIndex k \<noteq> None) obj"
  by (induction obj) (auto simp: indexed_def split: option.splits)

lemma mset_entries: "mset (entries obj) = mset obj"
proof -
  have "mset (map snd (sort_key fst (indexed obj))) = mset (map snd (indexed obj))"
    by (simp only: mset_map mset_sort)
  then have "mset (entries obj) = mset (filter (\<lambda>(k, v). arrayIndex k \<noteq> None) obj)
      + mset (filter (\<lambda>(k, v). arrayIndex k = None) obj)"
    by (simp add: entries_def map_snd_indexed)
  also have "\<dots> = mset obj"
    by (induction obj) auto
  finally show ?thesis .
qed

lemma set_entries: "set (entries obj) = set obj"
  using mset_entries [of obj] by (metis set_mset_mset)

lemma length_entries: "length (entries obj) = length obj"
  using mset_entries [of obj] by (metis size_mset)

lemma keyDesc_byCountDesc:
  "\<forall>g \<in> A. \<exists>c. cnt g = Count c \<Longrightarrow> keyDesc (byCountDesc cnt) (\<lambda>g. int (countOf (cnt g))) A"
  unfolding keyDesc_def byCountDesc_def
proof (intro ballI)
  fix x y
  assume a: "\<forall>g \<in> A. \<exists>c. cnt g = Count c" and "x \<in> A" and "y \<in> A"
  then obtain cx cy where "cnt x = Count cx" and "cnt y = Count cy" by blast
  then show "minus (cnt y) (cnt x) = Some (int (countOf (cnt y)) - int (countOf (cnt x)))"
    by simp
qed

lemma sorted_byCountDesc:
  assumes "\<forall>g \<in> set xs. \<exists>c. cnt g = Count c"
  shows "sorted_wrt (\<lambda>a b. countOf (cnt b) \<le> countOf (cnt a)) (sortBy (byCountDesc cnt) xs)"
  using sorted_sortBy [OF keyDesc_byCountDesc [OF assms]] by simp

section \<open>HotspotRanker\<close>

text \<open>
  When no region is the name of an inherited member, the ranking has at most 10
  groups, the counts never increase along it, each count is the number of
  signals of the region and the tier is high above 10, medium from 6 to 10 and
  low otherwise.
\<close>

lemma locationHotspots_plain_regions:
  assumes "list_all (\<lambda>s. plainKey (firstSegment (CHR '','') (s_location s))) signals"
  shows "length (locationHotspots signals) \<le> 10
   \<and> sorted_wrt (\<lambda>a b. countOf (h_count b) \<le> countOf (h_count a)) (locationHotspots signals)
   \<and> (\<forall>g \<in> set (locationHotspots signals).
        h_count g = Count (length (filter (\<lambda>s. firstSegment (CHR '','') (s_location s) = h_location g) signals))
        \<and> h_risk g = (if countOf (h_count g) > 10 then ''high''
                      else if 5 < countOf (h_count g) \<and> countOf (h_count g) \<le> 10 then ''medium''
                      else ''low''))"
proof -
  let ?groups = "map (\<lambda>(location, c). \<lparr>h_location = location, h_count = c, h_risk = riskTier c\<rparr>)
            (entries (locationCounts signals))"
  have grp: "h_count g = Count (length (filter (\<lambda>s. firstSegment (CHR '','') (s_location s) = h_location g) signals))
        \<and> h_risk g = riskTier (h_count g)" if "g \<in> set ?groups" for g
  proof -
    from that obtain k v where kv: "(k, v) \<in> set (locationCounts signals)"
      and g: "g = \<lparr>h_location = k, h_count = v, h_risk = riskTier v\<rparr>"
      by (auto simp: set_entries)
    from kv have "k \<in> (\<lambda>s. firstSegment (CHR '','') (s_location s)) ` set signals"
      unfolding locationCounts_def by (rule keys_countBy)
    then have "plainKey k" using assms by (auto simp: list_all_iff)
    then have "v = Count (length (filter (\<lambda>s. firstSegment (CHR '','') (s_location s) = k) signals))"
      using kv countBy_entry [of k v "\<lambda>s. firstSegment (CHR '','') (s_location s)" signals]
      unfolding locationCounts_def by blast
    then show ?thesis by (simp add: g)
  qed
  have len: "length (locationHotspots signals) \<le> 10"
    by (simp add: locationHotspots_def)
  have "\<forall>g \<in> set ?groups. \<exists>c. h_count g = Count c"
    using grp by blast
  then have "sorted_wrt (\<lambda>a b. countOf (h_count b) \<le> countOf (h_count a))
      (sortBy (byCountDesc h_count) ?groups)"
    by (rule sorted_byCountDesc)
  then have srt: "sorted_wrt (\<lambda>a b. countOf (h_count b) \<le> countOf (h_count a)) (locationHotspots signals)"
    unfolding locationHotspots_def by (rule sorted_wrt_take)
  have "h_count g = Count (length (filter (\<lambda>s. firstSegment (CHR '','') (s_location s) = h_location g) signals))
        \<and> h_risk g = (if countOf (h_count g) > 10 then ''high''
                      else if 5 < countOf (h_count g) \<and> countOf (h_count g) \<le> 10 then ''medium''
                      else ''low'')" if "g \<in> set (locationHotspots signals)" for g
  proof -
    from that have "g \<in> set ?groups"
      unfolding locationHotspots_def by (auto dest: in_set_takeD simp: set_sortBy)
    from grp [OF this] show ?thesis by (auto simp: riskTier_def)
  qed
  then show ?thesis using len srt by blast
qed

text \<open>Eleven signals in one region and ten in another: high and medium.\<close>

lemma locationHotspots_sample:
  "locationHotspots hotspotSample =
     [\<lparr>h_location = ''Mumbai'', h_count = Count 11, h_risk = ''high''\<rparr>,
      \<lparr>h_location = ''Delhi'', h_count = Count 10, h_risk = ''medium''\<rparr>]"
  by code_simp

text \<open>
  C4.  The claim: for every signal collection each group's tier is high when
  its count is above 10.  The counters are kept in an object literal, and
  \<open>locationCounts[location] || 0\<close> reads an inherited member for a region such as
  \<open>constructor\<close>: the counter becomes a string, which no comparison with a
  number finds greater.  Eleven signals of the region \<open>constructor\<close> make one
  group whose count is a text and whose tier is low.
\<close>

theorem hotspot_inherited_region:
  "locationHotspots constructorSample =
     [\<lparr>h_location = ''constructor'',
       h_count = Text ''function Object() { [native code] }11111111111'',
       h_risk = ''low''\<rparr>]
   \<and> length (filter (\<lambda>s. firstSegment (CHR '','') (s_location s) = ''constructor'') constructorSample)
       = 11"
  by code_simp

section \<open>TypeBreakdownCalculator\<close>




text \<open>A type named as an inherited member: the count is a text and the percentage \<open>NaN\<close>.\<close>

lemma typeBreakdown_inherited_type:
  "typeBreakdown [sampleSignal ''constructor'' ''Delhi, Central'' ''low'' ''2024-01-05T10:00:00Z'']
     = [\<lparr>t_type = ''constructor'',
         t_count = Text ''function Object() { [native code] }1'',
         t_percentage = NaN\<rparr>]"
  by code_simp

section \<open>LiveFeedSimulator\<close>

lemma recent_loadInitialData:
  "recentSignals (loadInitialData h ld (Inr sd) (Inr ed) st) =
     map toSignalUpdate (take 10 (sortBy (byTimeDesc h s_created_at) (dataOrEmpty sd)))"
  by (simp add: loadInitialData_def Let_def)

lemma recent_loadInitialData_failed:
  "sr = Inl e \<or> er = Inl e \<Longrightarrow> recentSignals (loadInitialData h ld sr er st) = recentSignals st"
  by (auto simp: loadInitialData_def split: sum.splits)

lemma recent_simulate:
  "recentSignals (simulateRealTimeUpdate h d st) =
     (if synthesizes d then newSignal h d # take 9 (recentSignals st) else recentSignals st)"
  by (simp add: simulateRealTimeUpdate_def Let_def)

lemma step_bound:
  "length (recentSignals st) \<le> 10 \<Longrightarrow> length (recentSignals (step h st a)) \<le> 10"
proof (cases a)
  case (LoadInitialData d sr er)
  assume "length (recentSignals st) \<le> 10"
  then show ?thesis
    by (cases sr; cases er) (simp_all add: LoadInitialData loadInitialData_def Let_def)
next
  case (SimulateRealTimeUpdate d)
  assume "length (recentSignals st) \<le> 10"
  then show ?thesis by (simp add: SimulateRealTimeUpdate recent_simulate)
next
  case (ClearNewFlag i)
  assume "length (recentSignals st) \<le> 10"
  then show ?thesis by (simp add: ClearNewFlag clearNewFlag_def)
next
  case ToggleMonitoring
  assume "length (recentSignals st) \<le> 10"
  then show ?thesis by (simp add: ToggleMonitoring)
qed

lemma run_bound:
  "length (recentSignals st) \<le> 10 \<Longrightarrow> length (recentSignals (run h st acts)) \<le> 10"
  unfolding run_def by (induction acts arbitrary: st) (simp_all add: step_bound)

text \<open>
  C9.  The recency buffer never holds more than 10 entries: not after any
  sequence of loads, ticks, delayed callbacks and toggles from the initial
  state, and not after a further load, failed or not.  A successful load
  stores the first 10 signals of the collection sorted by time, newest first
  (a permutation of the collection, in descending order of time when every
  \<open>created_at\<close> is a valid date).  A tick that synthesizes a signal puts it at
  the head, followed by the first 9 of the previous entries.
\<close>

theorem recentSignals_bounded:
  "length (recentSignals (run h (initialMonitor h t0) acts)) \<le> 10
   \<and> recentSignals (loadInitialData h ld (Inr sd) (Inr ed) st) =
       map toSignalUpdate (take 10 (sortBy (byTimeDesc h s_created_at) (dataOrEmpty sd)))
   \<and> length (recentSignals (loadInitialData h ld sr er (run h (initialMonitor h t0) acts))) \<le> 10
   \<and> (validTimes h s_created_at (dataOrEmpty sd) \<longrightarrow>
        sorted_wrt (\<lambda>a b. timeOf h (s_created_at b) \<le> timeOf h (s_created_at a))
          (sortBy (byTimeDesc h s_created_at) (dataOrEmpty sd)))
   \<and> mset (sortBy (byTimeDesc h s_created_at) (dataOrEmpty sd)) = mset (dataOrEmpty sd)
   \<and> (synthesizes d \<longrightarrow>
        recentSignals (simulateRealTimeUpdate h d st) = newSignal h d # take 9 (recentSignals st)
        \<and> length (recentSignals (simulateRealTimeUpdate h d st)) \<le> 10)"
proof -
  have i: "length (recentSignals (initialMonitor h t0)) \<le> 10"
    by (simp add: initialMonitor_def)
  have r: "length (recentSignals (run h (initialMonitor h t0) acts)) \<le> 10"
    using i by (rule run_bound)
  have l: "length (recentSignals (loadInitialData h ld sr er (run h (initialMonitor h t0) acts))) \<le> 10"
    using step_bound [OF r, of h "LoadInitialData ld sr er"] by simp
  show ?thesis
    using r l by (simp add: recent_loadInitialData recent_simulate sorted_byTimeDesc mset_sortBy)
qed

lemma synthesizes_tickHigh: "synthesizes tickHigh"
  by (simp add: synthesizes_def tickHigh_def)

lemma not_synthesizes_tickIdle: "\<not> synthesizes tickIdle"
  by (simp add: synthesizes_def tickIdle_def)

lemma severity_tickHigh: "u_severity (newSignal sampleHost tickHigh) = Some ''high''"
proof -
  have "pick [''low'', ''medium'', ''high''] (9 / 10) = Some ''high''" by code_simp
  then show ?thesis by (simp add: newSignal_def tickHigh_def)
qed

lemma validTimes_typeSample: "validTimes sampleHost s_created_at typeSample"
  by (simp add: validTimes_def typeSample_def sampleSignal_def sampleHost_def sampleParse_def)


theorem recentSignals_bounded_witness:
  "synthesizes tickHigh
   \<and> validTimes sampleHost s_created_at typeSample
   \<and> length (recentSignals (run sampleHost (initialMonitor sampleHost sampleNow) sampleActions)) \<le> 10
   \<and> recentSignals (simulateRealTimeUpdate sampleHost tickHigh (initialMonitor sampleHost sampleNow))
       = [newSignal sampleHost tickHigh]
   \<and> sorted_wrt (\<lambda>a b. timeOf sampleHost (s_created_at b) \<le> timeOf sampleHost (s_created_at a))
          (sortBy (byTimeDesc sampleHost s_created_at) typeSample)"
  using recentSignals_bounded [of sampleHost sampleNow sampleActions sampleLoad "Some typeSample" None
      "initialMonitor sampleHost sampleNow" "Inr None" "Inr None" tickHigh]
    synthesizes_tickHigh validTimes_typeSample
  by (simp add: dataOrEmpty_def initialMonitor_def)


text \<open>
  C10.  A tick that synthesizes a signal changes the stats in two fields only:
  \<open>totalToday\<close> grows by 1, and \<open>highSeverity\<close> grows by 1 exactly when the
  synthesized signal's severity is high and stays as it is otherwise;
  \<open>activeEvents\<close> and \<open>avgResponseTime\<close> keep their values.  A tick that
  synthesizes no signal leaves the stats and the recency buffer as they are.
\<close>

theorem simulateRealTimeUpdate_stats:
  "(synthesizes d \<longrightarrow>
      stats (simulateRealTimeUpdate h d st) =
        (stats st)\<lparr>totalToday := totalToday (stats st) + 1,
                   highSeverity := highSeverity (stats st)
                      + (if u_severity (newSignal h d) = Some ''high'' then 1 else 0)\<rparr>
      \<and> totalToday (stats (simulateRealTimeUpdate h d st)) = totalToday (stats st) + 1
      \<and> (highSeverity (stats (simulateRealTimeUpdate h d st)) = highSeverity (stats st) + 1
            \<longleftrightarrow> u_severity (newSignal h d) = Some ''high'')
      \<and> (highSeverity (stats (simulateRealTimeUpdate h d st)) = highSeverity (stats st)
            \<longleftrightarrow> u_severity (newSignal h d) \<noteq> Some ''high'')
      \<and> activeEvents (stats (simulateRealTimeUpdate h d st)) = activeEvents (stats st)
      \<and> avgResponseTime (stats (simulateRealTimeUpdate h d st)) = avgResponseTime (stats st)
      \<and> hd (recentSignals (simulateRealTimeUpdate h d st)) = newSignal h d)
   \<and> (\<not> synthesizes d \<longrightarrow>
        stats (simulateRealTimeUpdate h d st) = stats st
        \<and> recentSignals (simulateRealTimeUpdate h d st) = recentSignals st)"
  by (simp add: simulateRealTimeUpdate_def Let_def)


theorem simulateRealTimeUpdate_stats_witness:
  "synthesizes tickHigh
   \<and> stats (simulateRealTimeUpdate sampleHost tickHigh (initialMonitor sampleHost sampleNow))
       = \<lparr>totalToday = 1, highSeverity = 1, activeEvents = 0, avgResponseTime = ''2.3s''\<rparr>
   \<and> \<not> synthesizes tickIdle
   \<and> stats (simulateRealTimeUpdate sampleHost tickIdle (initialMonitor sampleHost sampleNow))
       = \<lparr>totalToday = 0, highSeverity = 0, activeEvents = 0, avgResponseTime = ''2.3s''\<rparr>
   \<and> recentSignals (simulateRealTimeUpdate sampleHost tickIdle (initialMonitor sampleHost sampleNow)) = []"
  using simulateRealTimeUpdate_stats [of tickHigh sampleHost "initialMonitor sampleHost sampleNow"]
    simulateRealTimeUpdate_stats [of tickIdle sampleHost "initialMonitor sampleHost sampleNow"]
    synthesizes_tickHigh not_synthesizes_tickIdle severity_tickHigh
  by (simp add: initialMonitor_def)



section \<open>TrendAggregator\<close>

lemma startsWith_unique:
  assumes "startsWith s p" and "startsWith s q" and "length p = length q"
  shows "p = q"
  using assms by (simp add: startsWith_def)

lemma one_day_per_signal:
  assumes "distinct (map f is)" and "\<forall>i \<in> set is. length (f i) = n"
  shows "sum_list (map (\<lambda>i. if startsWith s (f i) then 1 else 0) is)
           = (if list_ex (\<lambda>i. startsWith s (f i)) is then 1 else (0::nat))"
  using assms
proof (induction "is")
  case Nil
  then show ?case by simp
next
  case (Cons i "is")
  have ih: "sum_list (map (\<lambda>i. if startsWith s (f i) then 1 else 0) is)
           = (if list_ex (\<lambda>i. startsWith s (f i)) is then 1 else (0::nat))"
    using Cons by simp
  show ?case
  proof (cases "startsWith s (f i)")
    case True
    have "\<not> list_ex (\<lambda>j. startsWith s (f j)) is"
    proof
      assume "list_ex (\<lambda>j. startsWith s (f j)) is"
      then obtain j where j: "j \<in> set is" "startsWith s (f j)"
        by (auto simp: list_ex_iff)
      have "length (f i) = length (f j)" using Cons.prems(2) j(1) by simp
      then have "f i = f j" using True j(2) by (rule startsWith_unique [rotated 2])
      then show False using Cons.prems(1) j(1) by auto
    qed
    then show ?thesis using True ih by simp
  next
    case False
    then show ?thesis using ih by simp
  qed
qed

lemma sum_day_counts:
  assumes "distinct (map f is)" and "\<forall>i \<in> set is. length (f i) = n"
  shows "sum_list (map (\<lambda>i. length (filter (\<lambda>s. startsWith (s_created_at s) (f i)) signals)) is)
           = length (filter (\<lambda>s. list_ex (\<lambda>i. startsWith (s_created_at s) (f i)) is) signals)"
proof (induction signals)
  case Nil
  then show ?case by simp
next
  case (Cons s signals)
  have "sum_list (map (\<lambda>i. length (filter (\<lambda>s. startsWith (s_created_at s) (f i)) (s # signals))) is)
      = sum_list (map (\<lambda>i. (if startsWith (s_created_at s) (f i) then 1 else 0)
            + length (filter (\<lambda>s. startsWith (s_created_at s) (f i)) signals)) is)"
    by (intro arg_cong [where f = sum_list] map_cong) auto
  also have "\<dots> = sum_list (map (\<lambda>i. if startsWith (s_created_at s) (f i) then 1 else 0) is)
      + sum_list (map (\<lambda>i. length (filter (\<lambda>s. startsWith (s_created_at s) (f i)) signals)) is)"
    by (simp add: sum_list_addf)
  also have "\<dots> = (if list_ex (\<lambda>i. startsWith (s_created_at s) (f i)) is then 1 else 0)
      + length (filter (\<lambda>s. list_ex (\<lambda>i. startsWith (s_created_at s) (f i)) is) signals)"
    using one_day_per_signal [OF assms] Cons.IH by simp
  finally show ?case by simp
qed

lemma length_generateSignalTrends:
  "length (generateSignalTrends h now rnd signals w) = windowDays w"
  by (simp add: generateSignalTrends_def)

lemma nth_generateSignalTrends:
  "k < windowDays w \<Longrightarrow>
     generateSignalTrends h now rnd signals w ! k
       = trendBucket h now rnd signals (windowDays w - 1 - k)"
  by (simp add: generateSignalTrends_def rev_nth)

lemma total_generateSignalTrends:
  assumes "calendarDates h now (windowDays w)"
  shows "sum_list (map tr_signals (generateSignalTrends h now rnd signals w))
           = length (filter (inWindow h now (windowDays w)) signals)"
proof -
  let ?days = "windowDays w"
  have d: "distinct (map (dateStr h now) [0..<?days])"
    and l: "\<forall>i \<in> set [0..<?days]. length (dateStr h now i) = 10"
    using assms by (simp_all add: calendarDates_def list_all_iff)
  have "map tr_signals (generateSignalTrends h now rnd signals w)
      = rev (map (\<lambda>i. length (filter (\<lambda>s. startsWith (s_created_at s) (dateStr h now i)) signals))
          [0..<?days])"
    by (simp add: generateSignalTrends_def trendBucket_def daySignals_def Let_def rev_map comp_def)
  then have "sum_list (map tr_signals (generateSignalTrends h now rnd signals w))
      = sum_list (map (\<lambda>i. length (filter (\<lambda>s. startsWith (s_created_at s) (dateStr h now i)) signals))
          [0..<?days])"
    by (simp only: sum_list_rev)
  also have "\<dots> = length (filter (\<lambda>s. list_ex (\<lambda>i. startsWith (s_created_at s) (dateStr h now i))
          [0..<?days]) signals)"
    using d l by (rule sum_day_counts)
  finally show ?thesis by (simp add: inWindow_def [abs_def])
qed

text \<open>
  The windows 1d, 7d and 30d have 1, 7 and 30 days.  The trend has one bucket
  for each day of the window, the bucket at position \<open>k\<close> being the one of day
  offset \<open>days - 1 - k\<close> (oldest first), and its total is the number of signals
  whose \<open>created_at\<close> starts with that day's date.  When the days of the window
  have calendar dates, the totals add up to the number of signals in the
  window; a signal outside the window is in no bucket.
\<close>

lemma generateSignalTrends_buckets:
  "windowDays ''1d'' = 1 \<and> windowDays ''7d'' = 7 \<and> windowDays ''30d'' = 30
   \<and> length (generateSignalTrends h now rnd signals w) = windowDays w
   \<and> (\<forall>k < windowDays w.
         generateSignalTrends h now rnd signals w ! k
           = trendBucket h now rnd signals (windowDays w - 1 - k)
         \<and> tr_signals (generateSignalTrends h now rnd signals w ! k)
           = length (filter (\<lambda>s. startsWith (s_created_at s)
                                 (dateStr h now (windowDays w - 1 - k))) signals))
   \<and> (calendarDates h now (windowDays w) \<longrightarrow>
         sum_list (map tr_signals (generateSignalTrends h now rnd signals w))
           = length (filter (inWindow h now (windowDays w)) signals))"
proof -
  have "windowDays ''1d'' = 1 \<and> windowDays ''7d'' = 7 \<and> windowDays ''30d'' = 30"
    by (simp add: windowDays_def)
  moreover have "\<forall>k < windowDays w.
         generateSignalTrends h now rnd signals w ! k
           = trendBucket h now rnd signals (windowDays w - 1 - k)
         \<and> tr_signals (generateSignalTrends h now rnd signals w ! k)
           = length (filter (\<lambda>s. startsWith (s_created_at s)
                                 (dateStr h now (windowDays w - 1 - k))) signals)"
    by (simp add: nth_generateSignalTrends) (simp add: trendBucket_def daySignals_def Let_def)
  ultimately show ?thesis
    using length_generateSignalTrends total_generateSignalTrends by blast
qed


lemma calendarDates_sample: "calendarDates sampleHost sampleClock (windowDays ''7d'')"
  by code_simp

lemma trends_sample:
  "map tr_signals (generateSignalTrends sampleHost sampleClock sampleRnd trendSample ''7d'')
     = [0, 0, 0, 0, 0, 1, 2]"
  by code_simp

lemma generateSignalTrends_sample:
  "calendarDates sampleHost sampleClock (windowDays ''7d'')
   \<and> map tr_signals (generateSignalTrends sampleHost sampleClock sampleRnd trendSample ''7d'')
       = [0, 0, 0, 0, 0, 1, 2]
   \<and> length (filter (inWindow sampleHost sampleClock (windowDays ''7d'')) trendSample) = 3
   \<and> length trendSample = 4"
proof -
  have "sum_list (map tr_signals (generateSignalTrends sampleHost sampleClock sampleRnd trendSample ''7d''))
          = length (filter (inWindow sampleHost sampleClock (windowDays ''7d'')) trendSample)"
    using generateSignalTrends_buckets [of sampleHost sampleClock sampleRnd trendSample "''7d''"]
      calendarDates_sample by blast
  then have "length (filter (inWindow sampleHost sampleClock (windowDays ''7d'')) trendSample) = 3"
    by (simp add: trends_sample)
  then show ?thesis
    using calendarDates_sample trends_sample by (simp add: trendSample_def typeSample_def)
qed

text \<open>
  C3.  The claim: the totals of the buckets add up to the number of signals in
  the window.  The code steps back through the days in local time and names
  each day by its UTC date.  In Berlin at 01:30 on the day after the start of
  daylight saving time, the day offsets 0 and 1 both have the date 2024-03-31:
  a single signal of that date is in two buckets and the totals add up to 2.
\<close>

theorem trend_total_daylight_saving:
  "dateStr berlinHost berlinClock 0 = ''2024-03-31''
   \<and> dateStr berlinHost berlinClock 1 = ''2024-03-31''
   \<and> map tr_signals (generateSignalTrends berlinHost berlinClock sampleRnd [berlinSignal] ''7d'')
       = [0, 0, 0, 0, 0, 1, 1]
   \<and> sum_list (map tr_signals
        (generateSignalTrends berlinHost berlinClock sampleRnd [berlinSignal] ''7d'')) = 2
   \<and> length [berlinSignal] = 1"
  by code_simp

section \<open>NotificationMerger\<close>

lemma length_merged:
  "length (mergedNotifications h now alerts events) = length alerts + length (activeEventsOf events) + 1"
  by (simp add: mergedNotifications_def systemNotifications_def)

lemma unread_merged: "filter (\<lambda>n. \<not> n_read n) (mergedNotifications h now alerts events)
    = mergedNotifications h now alerts events"
  by (simp add: mergedNotifications_def systemNotifications_def alertNotification_def
      eventNotification_def)

lemma unread_allNotifications:
  "filter (\<lambda>n. \<not> n_read n) (allNotifications h now alerts events) = allNotifications h now alerts events"
proof -
  have "\<forall>n \<in> set (mergedNotifications h now alerts events). \<not> n_read n"
    using unread_merged [of h now alerts events] by (metis (mono_tags, lifting) filter_id_conv)
  then have "\<forall>n \<in> set (allNotifications h now alerts events). \<not> n_read n"
    unfolding allNotifications_def by (auto dest!: in_set_takeD simp: set_sortBy)
  then show ?thesis by simp
qed

lemma length_allNotifications:
  "length (allNotifications h now alerts events)
     = min 20 (length alerts + length (activeEventsOf events) + 1)"
  by (simp add: allNotifications_def length_sortBy length_merged min.commute)

lemma unreadCount_loaded:
  "unreadCount (loadNotifications h now (Inr ad) (Inr ed) st) =
     min 20 (length (dataOrEmpty ad) + length (activeEventsOf (dataOrEmpty ed)) + 1)"
  by (simp add: unreadCount_def loadNotifications_def unread_allNotifications length_allNotifications)

lemma kinds_merged:
  "filter (\<lambda>n. n_type n = ''alert'') (mergedNotifications h now alerts events)
      = map alertNotification alerts
   \<and> filter (\<lambda>n. n_type n = ''event'') (mergedNotifications h now alerts events)
      = map eventNotification (filter (\<lambda>e. e_status e = ''active'') events)
   \<and> filter (\<lambda>n. n_type n = ''system'') (mergedNotifications h now alerts events)
      = systemNotifications h now"
  by (simp add: mergedNotifications_def systemNotifications_def alertNotification_def
      eventNotification_def activeEventsOf_def filter_map comp_def)

text \<open>
  C6.  After a load whose two fetches resolve, the notifications are the first
  20 of the merged list sorted by time: the merged list consists of one
  notification for each alert, one for each event whose status is active and
  for no other event, and the system notice; the sorted list is a permutation
  of it, in descending order of time when every timestamp is a valid date.
\<close>

theorem loadNotifications_merged:
  "notifications (loadNotifications h now (Inr ad) (Inr ed) st)
      = take 20 (sortBy (byTimeDesc h n_timestamp)
                   (mergedNotifications h now (dataOrEmpty ad) (dataOrEmpty ed)))
   \<and> length (notifications (loadNotifications h now (Inr ad) (Inr ed) st)) \<le> 20
   \<and> mset (sortBy (byTimeDesc h n_timestamp) (mergedNotifications h now (dataOrEmpty ad) (dataOrEmpty ed)))
      = mset (mergedNotifications h now (dataOrEmpty ad) (dataOrEmpty ed))
   \<and> filter (\<lambda>n. n_type n = ''alert'') (mergedNotifications h now (dataOrEmpty ad) (dataOrEmpty ed))
      = map alertNotification (dataOrEmpty ad)
   \<and> filter (\<lambda>n. n_type n = ''event'') (mergedNotifications h now (dataOrEmpty ad) (dataOrEmpty ed))
      = map eventNotification (filter (\<lambda>e. e_status e = ''active'') (dataOrEmpty ed))
   \<and> filter (\<lambda>n. n_type n = ''system'') (mergedNotifications h now (dataOrEmpty ad) (dataOrEmpty ed))
      = systemNotifications h now
   \<and> (validTimes h n_timestamp (mergedNotifications h now (dataOrEmpty ad) (dataOrEmpty ed)) \<longrightarrow>
        sorted_wrt (\<lambda>a b. timeOf h (n_timestamp b) \<le> timeOf h (n_timestamp a))
          (sortBy (byTimeDesc h n_timestamp)
             (mergedNotifications h now (dataOrEmpty ad) (dataOrEmpty ed)))
        \<and> sorted_wrt (\<lambda>a b. timeOf h (n_timestamp b) \<le> timeOf h (n_timestamp a))
          (notifications (loadNotifications h now (Inr ad) (Inr ed) st)))"
proof -
  have out: "notifications (loadNotifications h now (Inr ad) (Inr ed) st)
      = take 20 (sortBy (byTimeDesc h n_timestamp)
                   (mergedNotifications h now (dataOrEmpty ad) (dataOrEmpty ed)))"
    by (simp add: loadNotifications_def allNotifications_def)
  have len: "length (notifications (loadNotifications h now (Inr ad) (Inr ed) st)) \<le> 20"
    by (simp add: out)
  have srt: "sorted_wrt (\<lambda>a b. timeOf h (n_timestamp b) \<le> timeOf h (n_timestamp a))
          (notifications (loadNotifications h now (Inr ad) (Inr ed) st))"
    if "validTimes h n_timestamp (mergedNotifications h now (dataOrEmpty ad) (dataOrEmpty ed))"
    unfolding out using that by (intro sorted_wrt_take sorted_byTimeDesc)
  show ?thesis
    using out len srt kinds_merged [of h now "dataOrEmpty ad" "dataOrEmpty ed"]
      mset_sortBy [of "byTimeDesc h n_timestamp"
        "mergedNotifications h now (dataOrEmpty ad) (dataOrEmpty ed)"]
      sorted_byTimeDesc [of h n_timestamp "mergedNotifications h now (dataOrEmpty ad) (dataOrEmpty ed)"]
    by blast
qed

lemma validTimes_sample:
  "validTimes sampleHost n_timestamp (mergedNotifications sampleHost sampleNow [sampleAlert] sampleEvents)"
  by code_simp

lemma ranked_sample:
  "map n_id (take 20 (sortBy (byTimeDesc sampleHost n_timestamp)
      (mergedNotifications sampleHost sampleNow [sampleAlert] sampleEvents)))
     = [''event-e1'', ''system-1'', ''alert-a1'']"
  by code_simp

theorem loadNotifications_merged_witness:
  "validTimes sampleHost n_timestamp (mergedNotifications sampleHost sampleNow [sampleAlert] sampleEvents)
   \<and> map n_id (notifications (loadNotifications sampleHost sampleNow (Inr (Some [sampleAlert]))
         (Inr (Some sampleEvents)) emptyCenter))
       = [''event-e1'', ''system-1'', ''alert-a1'']
   \<and> sorted_wrt (\<lambda>a b. timeOf sampleHost (n_timestamp b) \<le> timeOf sampleHost (n_timestamp a))
          (notifications (loadNotifications sampleHost sampleNow (Inr (Some [sampleAlert]))
         (Inr (Some sampleEvents)) emptyCenter))"
  using loadNotifications_merged [of sampleHost sampleNow "Some [sampleAlert]" "Some sampleEvents"
      emptyCenter] validTimes_sample ranked_sample
  by (simp add: dataOrEmpty_def)

text \<open>
  C7.  The claim: the unread count is taken over all notifications the merge
  produced, not only the 20 retained.  On the code the count is taken over the
  state, which holds the truncated list: with 21 alerts the merge produces 22
  unread notifications and the count is 20.
\<close>

theorem unreadCount_counterexample:
  "unreadCount (loadNotifications sampleHost sampleNow (Inr (Some (replicate 21 sampleAlert))) (Inr None)
      emptyCenter) = 20
   \<and> length (filter (\<lambda>n. \<not> n_read n)
        (mergedNotifications sampleHost sampleNow (replicate 21 sampleAlert) [])) = 22"
  by (simp add: unreadCount_loaded unread_merged length_merged dataOrEmpty_def activeEventsOf_def)

text \<open>
  C7, amended.  The unread count is the number of unread notifications among
  those the state retains; right after a merge it is the number of merged
  notifications, capped at 20.
\<close>

theorem unreadCount_retained:
  "unreadCount st = length (filter (\<lambda>n. \<not> n_read n) (notifications st))
   \<and> unreadCount (loadNotifications h now (Inr ad) (Inr ed) st) =
       min 20 (length (dataOrEmpty ad) + length (activeEventsOf (dataOrEmpty ed)) + 1)"
  by (simp add: unreadCount_loaded) (simp add: unreadCount_def)

section \<open>Fetch failures\<close>

text \<open>
  C8.  The claim: whenever a fetch fails the system-health flag becomes
  critical, and no failure goes without a change of a status indicator.  On
  the code this holds for the monitor's load only.  A refresh of the analytics
  view whose fetch rejects, started in a state that is not loading, ends in the
  very same state.
\<close>

theorem fetch_failure_counterexample:
  "loadAnalyticsData sampleHost sampleClock sampleRnd (Inl FetchError) (Inr None) idleAnalytics
     = idleAnalytics"
  by (simp add: loadAnalyticsData_def idleAnalytics_def)

text \<open>
  C8, amended.  When a fetch rejects, the monitor's load changes nothing but
  the system status, which becomes disconnected and critical; the recency
  buffer and the stats are retained.  The analytics load and the notification
  load retain their derived views too, and their one effect is that the
  loading flag is false at the end.
\<close>

theorem fetch_failure_effects:
  "(sr = Inl e \<or> er = Inl e' \<longrightarrow>
      loadInitialData h d sr er m =
        m\<lparr>systemStatus := (systemStatus m)\<lparr>isConnected := False, systemHealth := Critical\<rparr>\<rparr>
      \<and> recentSignals (loadInitialData h d sr er m) = recentSignals m
      \<and> stats (loadInitialData h d sr er m) = stats m
      \<and> loadAnalyticsData h now rnd sr er a = a\<lparr>aa_isLoading := False\<rparr>
      \<and> analyticsData (loadAnalyticsData h now rnd sr er a) = analyticsData a)
   \<and> (ar = Inl e \<or> er = Inl e' \<longrightarrow>
      loadNotifications h t ar er c = c\<lparr>nc_isLoading := False\<rparr>
      \<and> notifications (loadNotifications h t ar er c) = notifications c)"
  by (auto simp: loadInitialData_def loadAnalyticsData_def loadNotifications_def split: sum.splits)

theorem fetch_failure_effects_witness:
  "systemStatus (loadInitialData sampleHost sampleLoad (Inl FetchError) (Inr None)
       (initialMonitor sampleHost sampleNow))
     = \<lparr>isConnected = False, lastUpdate = ''2024-01-06T11:00:00.000Z'', signalsPerMinute = 0,
        systemHealth = Critical\<rparr>
   \<and> recentSignals (loadInitialData sampleHost sampleLoad (Inl FetchError) (Inr None)
       (initialMonitor sampleHost sampleNow)) = []
   \<and> aa_isLoading (loadAnalyticsData sampleHost sampleClock sampleRnd (Inl FetchError) (Inr None)
       idleAnalytics) = False
   \<and> notifications (loadNotifications sampleHost sampleNow (Inr None) (Inl FetchError) emptyCenter) = []"
  using fetch_failure_effects [where sr = "Inl FetchError" and er = "Inr None" and e = FetchError
      and e' = FetchError and ar = "Inr None" and h = sampleHost and d = sampleLoad
      and m = "initialMonitor sampleHost sampleNow" and now = sampleClock and rnd = sampleRnd
      and a = idleAnalytics and t = sampleNow and c = emptyCenter]
    fetch_failure_effects [where sr = "Inr None" and er = "Inl FetchError" and e = FetchError
      and e' = FetchError and ar = "Inr None" and h = sampleHost and d = sampleLoad
      and m = "initialMonitor sampleHost sampleNow" and now = sampleClock and rnd = sampleRnd
      and a = idleAnalytics and t = sampleNow and c = emptyCenter]
  by (simp add: initialMonitor_def sampleHost_def sampleIso_def sampleNow_def emptyCenter_def
      idleAnalytics_def)




end
